theory Spec2Isabelle
  imports Complex_Main "HOL-Library.Word"
begin

section \<open>Data model\<close>

text \<open>
  A JavaScript string is a sequence of UTF-16 code units; a code unit is modelled by its
  number.  JavaScript numbers are modelled by exact reals (by integers where the code
  rounds them), so rounding errors of the 64-bit floats are not part of the model.
\<close>

type_synonym jsstring = "nat list"

definition lit :: "string \<Rightarrow> jsstring" where
  "lit s = map of_char s"

datatype position = PosLeft | PosCenter | PosRight

record box =
  box_x :: real
  box_y :: real
  box_width :: real
  box_height :: real

record FaceDetail =
  age :: int
  gender :: jsstring
  genderProbability :: real
  emotion :: jsstring
  emotionScore :: real
  position :: position
  box :: box

record exif_block =
  exif_make :: "jsstring option"
  exif_model :: "jsstring option"
  exif_dateTime :: "jsstring option"
  exif_exposureTime :: "jsstring option"
  exif_fNumber :: "jsstring option"
  exif_iso :: "real option"

record location =
  lat :: real
  lng :: real

record ImageAnalysis =
  objects :: "jsstring list"
  labels :: "jsstring list"
  description :: jsstring
  confidenceScore :: real
  dominantColors :: "jsstring list"
  ageEstimate :: "jsstring option"
  emotionEstimate :: "jsstring option"
  faces :: "FaceDetail list option"
  markedUpImageUrl :: "jsstring option"
  scenery :: "jsstring option"
  ocrText :: "jsstring option"
  exif :: "exif_block option"
  location :: "location option"

datatype status = Pending | Analyzing | Completed | Error

record ImageRecord =
  rec_id :: jsstring
  name :: jsstring
  url :: jsstring
  base64 :: jsstring
  mimeType :: jsstring
  size_bytes :: nat
  status :: status
  analysis :: "ImageAnalysis option"
  error :: "jsstring option"

text \<open>A thrown value: an object that may carry a \<open>message\<close> property.\<close>

datatype failure = Failure (message: "jsstring option")

section \<open>Strings and numbers of the runtime\<close>

definition digit_char :: "nat \<Rightarrow> nat" where
  "digit_char d = (if d < 10 then 48 + d else 87 + d)"

text \<open>\<open>Number.prototype.toString(radix)\<close> on a non-negative integer.\<close>

fun toString_radix :: "nat \<Rightarrow> nat \<Rightarrow> jsstring" where
  "toString_radix b n =
     (if b < 2 \<or> n < b then [digit_char n]
      else toString_radix b (n div b) @ [digit_char (n mod b)])"

declare toString_radix.simps [simp del]

text \<open>An integer inside a template literal.\<close>

definition number_string :: "int \<Rightarrow> jsstring" where
  "number_string i =
     (if i < 0 then 45 # toString_radix 10 (nat (- i)) else toString_radix 10 (nat i))"

text \<open>Reading a decimal numeral back: the value of a string of digits, with an optional
  minus sign in front.\<close>

definition digits_value :: "jsstring \<Rightarrow> nat" where
  "digits_value s = fold (\<lambda>c v. 10 * v + (c - 48)) s 0"

definition decimal_value :: "jsstring \<Rightarrow> int" where
  "decimal_value s =
     (case s of
        [] \<Rightarrow> 0
      | c # cs \<Rightarrow> if c = 45 then - int (digits_value cs) else int (digits_value s))"

text \<open>\<open>Math.round\<close>: the nearest integer, a half rounded up.\<close>

definition Math_round :: "real \<Rightarrow> int" where
  "Math_round v = \<lfloor>v + 1 / 2\<rfloor>"

text \<open>\<open>Array.prototype.join\<close> on strings.\<close>

fun join :: "jsstring \<Rightarrow> jsstring list \<Rightarrow> jsstring" where
  "join sep [] = []"
| "join sep [s] = s"
| "join sep (s # t # ts) = s @ sep @ join sep (t # ts)"

text \<open>\<open>String.prototype.split\<close> at one code unit.\<close>

fun split_at :: "nat \<Rightarrow> jsstring \<Rightarrow> jsstring list" where
  "split_at c [] = [[]]"
| "split_at c (u # us) =
     (if u = c then [] # split_at c us
      else (case split_at c us of [] \<Rightarrow> [[u]] | l # ls \<Rightarrow> (u # l) # ls))"

text \<open>White space and line terminators, which \<open>String.prototype.trim\<close> strips.\<close>

definition is_space :: "nat \<Rightarrow> bool" where
  "is_space c \<longleftrightarrow>
     c \<in> {0x9, 0xA, 0xB, 0xC, 0xD, 0x20, 0xA0, 0x1680, 0x2028, 0x2029, 0x202F, 0x205F,
           0x3000, 0xFEFF} \<or> (0x2000 \<le> c \<and> c \<le> 0x200A)"

definition trim :: "jsstring \<Rightarrow> jsstring" where
  "trim s = rev (dropWhile is_space (rev (dropWhile is_space s)))"

text \<open>The values of a \<open>Set\<close> built from an array: first occurrences, in order.\<close>

definition set_values :: "'a list \<Rightarrow> 'a list" where
  "set_values xs = fold (\<lambda>x acc. if x \<in> set acc then acc else acc @ [x]) xs []"

text \<open>A stable sort with the comparator \<open>(a, b) => key(b) - key(a)\<close>.\<close>

definition sort_descending :: "('a \<Rightarrow> real) \<Rightarrow> 'a list \<Rightarrow> 'a list" where
  "sort_descending key xs = sort_key (\<lambda>a. - key a) xs"

section \<open>Text recognition: \<open>performOCR\<close>\<close>

text \<open>The language selector.  The code only asks whether it is \<open>'pl'\<close>.\<close>

datatype Language = PL | EN

text \<open>The class \<open>[a-zA-Z0-9]\<close> with the eighteen Polish letters of the pattern.\<close>

definition is_alnum :: "nat \<Rightarrow> bool" where
  "is_alnum c \<longleftrightarrow>
     (97 \<le> c \<and> c \<le> 122) \<or> (65 \<le> c \<and> c \<le> 90) \<or> (48 \<le> c \<and> c \<le> 57) \<or>
     c \<in> {0x105, 0x119, 0x107, 0x142, 0x144, 0xF3, 0x15B, 0x17A, 0x17C,
           0x104, 0x118, 0x106, 0x141, 0x143, 0xD3, 0x15A, 0x179, 0x17B}"

definition filter_line :: "jsstring \<Rightarrow> jsstring option" where
  "filter_line line =
     (let trimmedLine = trim line in
      if trimmedLine = [] then None
      else let alphaNumOnly = filter is_alnum trimmedLine in
        if length alphaNumOnly \<ge> 2 \<and>
           real (length alphaNumOnly) / real (length trimmedLine) \<ge> 0.3
        then Some trimmedLine else None)"

text \<open>\<open>filter(Boolean)\<close> drops \<open>null\<close> and the empty string.\<close>

definition filter_Boolean :: "jsstring option list \<Rightarrow> jsstring list" where
  "filter_Boolean xs = map the (filter (\<lambda>v. v \<noteq> None \<and> v \<noteq> Some []) xs)"

definition clean_text :: "jsstring \<Rightarrow> jsstring" where
  "clean_text text =
     (let lines = split_at 0xA text;
          filteredLines = filter_Boolean (map filter_line lines);
          cleanedText = trim (join [0xA] filteredLines)
      in if length cleanedText \<ge> 3 then cleanedText else [])"

text \<open>The recogniser's outcome stands for the whole \<open>try\<close> block up to the text: a failure
  of \<open>createWorker\<close>, \<open>recognize\<close> or \<open>terminate\<close> is caught and gives the empty string.\<close>

definition performOCR :: "failure + jsstring \<Rightarrow> jsstring" where
  "performOCR outcome = (case outcome of Inl e \<Rightarrow> [] | Inr text \<Rightarrow> clean_text text)"

section \<open>Translation tables\<close>

definition categoryTranslations :: "(jsstring \<times> jsstring) list" where
  "categoryTranslations =
     [(lit ''person'', lit ''osoba''),
      (lit ''dog'', lit ''pies''),
      (lit ''cat'', lit ''kot''),
      (lit ''car'', lit ''samoch'' @ [0xF3] @ lit ''d''),
      (lit ''motorcycle'', lit ''motocykl''),
      (lit ''bus'', lit ''autobus''),
      (lit ''train'', lit ''poci'' @ [0x105] @ lit ''g''),
      (lit ''truck'', lit ''ci'' @ [0x119, 0x17C] @ lit ''ar'' @ [0xF3] @ lit ''wka''),
      (lit ''boat'', [0x142, 0xF3] @ lit ''d'' @ [0x17A]),
      (lit ''traffic light'', lit ''sygnalizacja '' @ [0x15B] @ lit ''wietlna''),
      (lit ''fire hydrant'', lit ''hydrant''),
      (lit ''stop'', lit ''znak stop''),
      (lit ''parking meter'', lit ''parkometr''),
      (lit ''bench'', [0x142] @ lit ''awka''),
      (lit ''bird'', lit ''ptak''),
      (lit ''horse'', lit ''ko'' @ [0x144]),
      (lit ''sheep'', lit ''owca''),
      (lit ''cow'', lit ''krowa''),
      (lit ''elephant'', lit ''s'' @ [0x142] @ lit ''o'' @ [0x144]),
      (lit ''bear'', lit ''nied'' @ [0x17A] @ lit ''wied'' @ [0x17A]),
      (lit ''zebra'', lit ''zebra''),
      (lit ''giraffe'', [0x17C] @ lit ''yrafa''),
      (lit ''backpack'', lit ''plecak''),
      (lit ''umbrella'', lit ''parasol''),
      (lit ''handbag'', lit ''torebka''),
      (lit ''tie'', lit ''krawat''),
      (lit ''suitcase'', lit ''walizka''),
      (lit ''frisbee'', lit ''frisbee''),
      (lit ''skis'', lit ''narty''),
      (lit ''snowboard'', lit ''snowboard''),
      (lit ''sports ball'', lit ''pi'' @ [0x142] @ lit ''ka sportowa''),
      (lit ''kite'', lit ''latawiec''),
      (lit ''baseball bat'', lit ''kij baseballowy''),
      (lit ''baseball glove'', lit ''r'' @ [0x119] @ lit ''kawica''),
      (lit ''skateboard'', lit ''deskorolka''),
      (lit ''surfboard'', lit ''deska surfingowa''),
      (lit ''tennis racket'', lit ''rakieta''),
      (lit ''bottle'', lit ''butelka''),
      (lit ''wine glass'', lit ''kieliszek''),
      (lit ''cup'', lit ''kubek''),
      (lit ''fork'', lit ''widelec''),
      (lit ''knife'', lit ''n'' @ [0xF3, 0x17C]),
      (lit ''spoon'', [0x142] @ lit ''y'' @ [0x17C] @ lit ''ka''),
      (lit ''bowl'', lit ''miska''),
      (lit ''banana'', lit ''banan''),
      (lit ''apple'', lit ''jab'' @ [0x142] @ lit ''ko''),
      (lit ''sandwich'', lit ''kanapka''),
      (lit ''orange'', lit ''pomara'' @ [0x144] @ lit ''cza''),
      (lit ''broccoli'', lit ''broku'' @ [0x142] @ lit ''y''),
      (lit ''carrot'', lit ''marchewka''),
      (lit ''hot dog'', lit ''hot dog''),
      (lit ''pizza'', lit ''pizza''),
      (lit ''donut'', lit ''p'' @ [0x105] @ lit ''czek''),
      (lit ''cake'', lit ''ciasto''),
      (lit ''chair'', lit ''krzes'' @ [0x142] @ lit ''o''),
      (lit ''couch'', lit ''kanapa''),
      (lit ''potted plant'', lit ''ro'' @ [0x15B] @ lit ''lina doniczkowa''),
      (lit ''bed'', [0x142, 0xF3, 0x17C] @ lit ''ko''),
      (lit ''dining table'', lit ''st'' @ [0xF3, 0x142]),
      (lit ''toilet'', lit ''toaleta''),
      (lit ''tv'', lit ''telewizor''),
      (lit ''laptop'', lit ''laptop''),
      (lit ''mouse'', lit ''mysz''),
      (lit ''remote'', lit ''pilot''),
      (lit ''keyboard'', lit ''klawiatura''),
      (lit ''cell phone'', lit ''telefon''),
      (lit ''microwave'', lit ''mikrofal'' @ [0xF3] @ lit ''wka''),
      (lit ''oven'', lit ''piekarnik''),
      (lit ''toaster'', lit ''toster''),
      (lit ''sink'', lit ''zlew''),
      (lit ''refrigerator'', lit ''lod'' @ [0xF3] @ lit ''wka''),
      (lit ''book'', lit ''ksi'' @ [0x105, 0x17C] @ lit ''ka''),
      (lit ''clock'', lit ''zegar''),
      (lit ''vase'', lit ''wazon''),
      (lit ''scissors'', lit ''no'' @ [0x17C] @ lit ''yczki''),
      (lit ''teddy bear'', lit ''pluszowy mi'' @ [0x15B]),
      (lit ''hair drier'', lit ''suszarka''),
      (lit ''toothbrush'', lit ''szczoteczka'')]"

definition sceneTranslations :: "(jsstring \<times> jsstring) list" where
  "sceneTranslations =
     [(lit ''seashore'', lit ''wybrze'' @ [0x17C] @ lit ''e / pla'' @ [0x17C] @ lit ''a''),
      (lit ''lakeside'', lit ''nad jeziorem''),
      (lit ''mountain'', lit ''g'' @ [0xF3] @ lit ''ry''),
      (lit ''valley'', lit ''dolina''),
      (lit ''forest'', lit ''las''),
      (lit ''library'', lit ''biblioteka''),
      (lit ''office'', lit ''biuro''),
      (lit ''restaurant'', lit ''restauracja''),
      (lit ''street'', lit ''ulica''),
      (lit ''park'', lit ''park''),
      (lit ''garden'', lit ''ogr'' @ [0xF3] @ lit ''d''),
      (lit ''living room'', lit ''salon''),
      (lit ''kitchen'', lit ''kuchnia''),
      (lit ''bedroom'', lit ''sypialnia''),
      (lit ''classroom'', lit ''sala lekcyjna''),
      (lit ''gym'', lit ''si'' @ [0x142] @ lit ''ownia''),
      (lit ''hospital'', lit ''szpital'')]"

text \<open>Each entry is the pair of the \<open>pl\<close> and the \<open>en\<close> text.\<close>

definition emotionTranslations :: "(jsstring \<times> jsstring \<times> jsstring) list" where
  "emotionTranslations =
     [(lit ''neutral'', (lit ''Neutralny'', lit ''Neutral'')),
      (lit ''happy'', (lit ''Rado'' @ [0x15B, 0x107], lit ''Happy'')),
      (lit ''sad'', (lit ''Smutek'', lit ''Sad'')),
      (lit ''angry'', (lit ''Gniew'', lit ''Angry'')),
      (lit ''fearful'', (lit ''Strach'', lit ''Fearful'')),
      (lit ''disgusted'', (lit ''Obrzydzenie'', lit ''Disgusted'')),
      (lit ''surprised'', (lit ''Zaskoczenie'', lit ''Surprised''))]"

text \<open>
  The tables are plain objects, so \<open>table[key]\<close> also finds what every object inherits
  from \<open>Object.prototype\<close> (\<open>constructor\<close>, \<open>toString\<close>, \<open>__proto__\<close>, ...): a function or an
  object, which is truthy and is not a string.  Which keys are inherited is a matter of
  the runtime; the predicate \<open>inh\<close> says so.  The entries of the tables themselves are
  non-empty strings, and own entries come first.
\<close>

datatype looked_up = Text jsstring | Inherited

text \<open>\<open>table[key] || key\<close>.\<close>

definition translate ::
  "(jsstring \<Rightarrow> bool) \<Rightarrow> (jsstring \<times> jsstring) list \<Rightarrow> jsstring \<Rightarrow> looked_up" where
  "translate inh table k =
     (case map_of table k of
        Some t \<Rightarrow> Text t
      | None \<Rightarrow> if inh k then Inherited else Text k)"

text \<open>The strings among the looked up values, or \<open>None\<close> when one of them is not a
  string.\<close>

fun all_text :: "looked_up list \<Rightarrow> jsstring list option" where
  "all_text [] = Some []"
| "all_text (Text t # vs) = map_option ((#) t) (all_text vs)"
| "all_text (Inherited # vs) = None"

text \<open>\<open>emotionTranslations[key] || { pl: key, en: key }\<close>, read at \<open>pl\<close> and \<open>en\<close>: an
  inherited value has neither property, and \<open>undefined\<close> prints as \<open>undefined\<close>.\<close>

definition emotion_trans :: "(jsstring \<Rightarrow> bool) \<Rightarrow> jsstring \<Rightarrow> jsstring \<times> jsstring" where
  "emotion_trans inh e =
     (case map_of emotionTranslations e of
        Some t \<Rightarrow> t
      | None \<Rightarrow> if inh e then (lit ''undefined'', lit ''undefined'') else (e, e))"

section \<open>Faces\<close>

text \<open>What the face analyzer reports for one face, as far as \<open>analyzeImageLocal\<close> reads
  it.  \<open>expressions\<close> lists the entries of the expression object in the order of
  \<open>Object.entries\<close>; it is \<open>None\<close> when the property is missing.\<close>

record rawFace =
  detection_box :: box
  raw_age :: real
  raw_gender :: jsstring
  raw_genderProbability :: real
  expressions :: "(jsstring \<times> real) list option"

definition face_position :: "nat \<Rightarrow> box \<Rightarrow> position" where
  "face_position imageWidth b =
     (let centerX = box_x b + box_width b / 2 in
      if centerX < real imageWidth * 0.33 then PosLeft
      else if centerX > real imageWidth * 0.66 then PosRight
      else PosCenter)"

text \<open>The strongest expression.  Reading entry 0 of an empty list of entries throws the
  runtime's \<open>TypeError\<close>.\<close>

definition top_emotion ::
  "failure \<Rightarrow> (jsstring \<times> real) list option \<Rightarrow> failure + jsstring \<times> real" where
  "top_emotion typeError ex =
     (case ex of
        None \<Rightarrow> Inr (lit ''neutral'', 0)
      | Some entries \<Rightarrow>
          (case sort_descending snd entries of
             [] \<Rightarrow> Inl typeError
           | sortedEmotions0 # _ \<Rightarrow> Inr sortedEmotions0))"

definition faceDetail :: "failure \<Rightarrow> nat \<Rightarrow> rawFace \<Rightarrow> failure + FaceDetail" where
  "faceDetail typeError imageWidth fd =
     (let b = detection_box fd; pos = face_position imageWidth b in
      case top_emotion typeError (expressions fd) of
        Inl e \<Rightarrow> Inl e
      | Inr (em, sc) \<Rightarrow>
          Inr \<lparr>age = Math_round (raw_age fd), gender = raw_gender fd,
               genderProbability = raw_genderProbability fd,
               emotion = em, emotionScore = sc, position = pos,
               box = \<lparr>box_x = box_x b, box_y = box_y b, box_width = box_width b,
                      box_height = box_height b\<rparr>\<rparr>)"

text \<open>The \<open>forEach\<close> loop: the first face that throws ends it.\<close>

fun push_faces :: "failure \<Rightarrow> nat \<Rightarrow> rawFace list \<Rightarrow> failure + FaceDetail list" where
  "push_faces typeError imageWidth [] = Inr []"
| "push_faces typeError imageWidth (fd # fds) =
     (case faceDetail typeError imageWidth fd of
        Inl e \<Rightarrow> Inl e
      | Inr f \<Rightarrow>
          (case push_faces typeError imageWidth fds of
             Inl e \<Rightarrow> Inl e
           | Inr fs \<Rightarrow> Inr (f # fs)))"

text \<open>\<open>faces.sort((a, b) => a.box.x - b.box.x)\<close>: a stable sort by the left edge.\<close>

definition sort_faces :: "FaceDetail list \<Rightarrow> FaceDetail list" where
  "sort_faces fs = sort_key (\<lambda>f. box_x (box f)) fs"

section \<open>Summaries and description\<close>

definition genderTrans :: "Language \<Rightarrow> jsstring \<Rightarrow> jsstring" where
  "genderTrans lang g =
     (if g = lit ''male''
      then (if lang = PL then lit ''M'' @ [0x119, 0x17C] @ lit ''czyzna'' else lit ''Male'')
      else (if lang = PL then lit ''Kobieta'' else lit ''Female''))"

definition age_summary :: "Language \<Rightarrow> nat \<Rightarrow> int \<Rightarrow> jsstring \<Rightarrow> jsstring" where
  "age_summary lang n roundedAge g =
     (if lang = PL
      then (if n > 1 then lit ''Wykryto '' @ number_string (int n) @ lit '' twarze. '' else [])
           @ lit ''Osoba ok. '' @ number_string roundedAge @ lit '' lat ('' @ g @ lit '')''
      else (if n > 1 then lit ''Detected '' @ number_string (int n) @ lit '' faces. '' else [])
           @ lit ''Person approx. '' @ number_string roundedAge @ lit '' years ('' @ g @ lit '')'')"

definition emotion_summary :: "(jsstring \<Rightarrow> bool) \<Rightarrow> Language \<Rightarrow> FaceDetail \<Rightarrow> jsstring" where
  "emotion_summary inh lang firstFace =
     (let emTrans = emotion_trans inh (emotion firstFace) in
      (if lang = PL then fst emTrans else snd emTrans)
      @ lit '' ('' @ number_string (Math_round (emotionScore firstFace * 100)) @ lit ''%)'')"

text \<open>The pair of \<open>ageEstimate\<close> and \<open>emotionEstimate\<close>.\<close>

definition summaries ::
  "(jsstring \<Rightarrow> bool) \<Rightarrow> Language \<Rightarrow> FaceDetail list \<Rightarrow> jsstring \<times> jsstring" where
  "summaries inh lang fs =
     (case fs of
        [] \<Rightarrow> ([], [])
      | firstFace # _ \<Rightarrow>
          (let avgAge = real_of_int (fold (\<lambda>curr acc. acc + age curr) fs 0) / real (length fs)
           in (age_summary lang (length fs) (Math_round avgAge)
                 (genderTrans lang (gender firstFace)),
               if emotionScore firstFace > 0.1 then emotion_summary inh lang firstFace else [])))"

definition face_desc :: "(jsstring \<Rightarrow> bool) \<Rightarrow> Language \<Rightarrow> FaceDetail \<Rightarrow> jsstring" where
  "face_desc inh lang f =
     (let g = (if gender f = lit ''male''
               then (if lang = PL then lit ''M'' @ [0x119, 0x17C] @ lit ''czyzna'' else lit ''Man'')
               else (if lang = PL then lit ''Kobieta'' else lit ''Woman''));
          p = (if position f = PosLeft then (if lang = PL then lit ''po lewej'' else lit ''on left'')
               else if position f = PosRight
               then (if lang = PL then lit ''po prawej'' else lit ''on right'')
               else (if lang = PL then lit ''w '' @ [0x15B] @ lit ''rodku'' else lit ''center''));
          eTrans = emotion_trans inh (emotion f);
          e = (if lang = PL then fst eTrans else snd eTrans)
      in g @ lit '' ('' @ p @ lit '', '' @ e @ lit '')'')"

record detection =
  d_class :: jsstring
  d_score :: real

record prediction =
  className :: jsstring
  probability :: real

definition describe ::
  "(jsstring \<Rightarrow> bool) \<Rightarrow> Language \<Rightarrow> jsstring \<Rightarrow> jsstring list \<Rightarrow> detection list
     \<Rightarrow> FaceDetail list \<Rightarrow> jsstring" where
  "describe inh lang scenery' objs detections fs =
     (if lang = PL then lit ''Sceneria: '' @ scenery' @ lit ''. ''
      else lit ''Scene: '' @ scenery' @ lit ''. '')
     @ (if length objs > 0
        then (if lang = PL
              then lit ''Wykryto: '' @ join (lit '', '') (set_values objs) @ lit ''. ''
              else lit ''Detected: '' @ join (lit '', '') (set_values (map d_class detections))
                   @ lit ''. '')
        else [])
     @ (if length fs > 0
        then (if lang = PL
              then lit ''Twarze: '' @ join (lit ''; '') (map (face_desc inh lang) fs) @ lit ''.''
              else lit ''Faces: '' @ join (lit ''; '') (map (face_desc inh lang) fs) @ lit ''.'')
        else [])"

section \<open>Dominant colours: \<open>getDominantColors\<close>\<close>

text \<open>The 2D context of the analysis canvas: there is none, reading its pixels throws,
  or it holds the bytes of \<open>getImageData(...).data\<close>.\<close>

datatype surface = NoContext | GetImageDataThrows failure | Pixels "8 word list"

text \<open>A read past the end of the array gives \<open>undefined\<close>.\<close>

definition read_byte :: "8 word list \<Rightarrow> nat \<Rightarrow> nat option" where
  "read_byte d i = (if i < length d then Some (unat (d ! i)) else None)"

text \<open>\<open>v << k\<close> for a byte or \<open>undefined\<close> (which counts as 0); a byte shifted by 16 stays
  below \<open>2 ^ 31\<close>, so the 32-bit result does not wrap.\<close>

definition shift_left :: "nat option \<Rightarrow> nat \<Rightarrow> nat" where
  "shift_left v k = (case v of None \<Rightarrow> 0 | Some n \<Rightarrow> n * 2 ^ k)"

text \<open>The template \<open>#${(...).toString(16).slice(1)}\<close>.  Adding \<open>undefined\<close> gives \<open>NaN\<close>,
  which prints as \<open>NaN\<close>.\<close>

definition hex_color :: "nat option \<Rightarrow> nat option \<Rightarrow> nat option \<Rightarrow> jsstring" where
  "hex_color r g b =
     35 # drop 1 (case b of
                    None \<Rightarrow> lit ''NaN''
                  | Some bv \<Rightarrow> toString_radix 16 (2 ^ 24 + shift_left r 16 + shift_left g 8 + bv))"

text \<open>\<open>colors[hex] = (colors[hex] || 0) + 1\<close> on an object whose keys keep the order in
  which they were first written.\<close>

fun count_color :: "jsstring \<Rightarrow> (jsstring \<times> nat) list \<Rightarrow> (jsstring \<times> nat) list" where
  "count_color hex [] = [(hex, 1)]"
| "count_color hex ((k, n) # rest) =
     (if k = hex then (k, n + 1) # rest else (k, n) # count_color hex rest)"

text \<open>The \<open>hex\<close> of the loop body, for the pixel at byte \<open>i\<close>.\<close>

definition pixel_hex :: "8 word list \<Rightarrow> nat \<Rightarrow> jsstring" where
  "pixel_hex imageData i =
     hex_color (read_byte imageData i) (read_byte imageData (i + 1))
       (read_byte imageData (i + 2))"

function sample_loop ::
  "8 word list \<Rightarrow> nat \<Rightarrow> (jsstring \<times> nat) list \<Rightarrow> (jsstring \<times> nat) list" where
  "sample_loop imageData i colors =
     (if i < length imageData
      then sample_loop imageData (i + 4000) (count_color (pixel_hex imageData i) colors)
      else colors)"
  by pat_completeness auto
termination
  by (relation "measure (\<lambda>(imageData, i, colors). length imageData - i)") auto

declare sample_loop.simps [simp del]

definition getDominantColors :: "surface \<Rightarrow> failure + jsstring list" where
  "getDominantColors s =
     (case s of
        NoContext \<Rightarrow> Inr [lit ''#000000'']
      | GetImageDataThrows e \<Rightarrow> Inl e
      | Pixels imageData \<Rightarrow>
          Inr (map fst (take 3 (sort_descending (\<lambda>c. real (snd c))
                                  (sample_loop imageData 0 [])))))"

subsection \<open>The vocabulary of the ranking\<close>

text \<open>The fixed-stride sample: the colours the loop visits from byte \<open>i\<close> on, in order.\<close>

function sampled :: "8 word list \<Rightarrow> nat \<Rightarrow> jsstring list" where
  "sampled imageData i =
     (if i < length imageData then pixel_hex imageData i # sampled imageData (i + 4000)
      else [])"
  by pat_completeness auto
termination
  by (relation "measure (\<lambda>(imageData, i). length imageData - i)") auto

declare sampled.simps [simp del]

text \<open>Where a value is first met in a sequence.\<close>

definition first_index :: "'a list \<Rightarrow> 'a \<Rightarrow> nat" where
  "first_index xs v = length (takeWhile (\<lambda>u. u \<noteq> v) xs)"

text \<open>In a sample, \<open>a\<close> outranks \<open>b\<close>: it is more frequent, or as frequent and met first.\<close>

definition outranks :: "'a list \<Rightarrow> 'a \<Rightarrow> 'a \<Rightarrow> bool" where
  "outranks ks a b \<longleftrightarrow>
     count_list ks a > count_list ks b \<or>
     (count_list ks a = count_list ks b \<and> first_index ks a < first_index ks b)"

text \<open>A hex colour: \<open>#\<close> and six digits of \<open>0-9a-f\<close>.\<close>

definition is_hex_digit :: "nat \<Rightarrow> bool" where
  "is_hex_digit c \<longleftrightarrow> (48 \<le> c \<and> c \<le> 57) \<or> (97 \<le> c \<and> c \<le> 102)"

definition is_hex_color :: "jsstring \<Rightarrow> bool" where
  "is_hex_color s \<longleftrightarrow> length s = 7 \<and> take 1 s = [35] \<and> list_all is_hex_digit (drop 1 s)"

text \<open>The data of an \<open>ImageData\<close> has four bytes for each pixel.\<close>

definition whole_pixels :: "surface \<Rightarrow> bool" where
  "whole_pixels s = (case s of Pixels imageData \<Rightarrow> 4 dvd length imageData | _ \<Rightarrow> True)"

text \<open>What the tally holds after a sample: one entry for each colour met, in the order
  of the first meetings, with the number of meetings.\<close>

definition tally_of :: "jsstring list \<Rightarrow> (jsstring \<times> nat) list \<Rightarrow> bool" where
  "tally_of ks cs \<longleftrightarrow>
     distinct (map fst cs) \<and> set (map fst cs) = set ks \<and>
     (\<forall>(k, n) \<in> set cs. n = count_list ks k) \<and>
     sorted_wrt (\<lambda>a b. first_index ks a < first_index ks b) (map fst cs)"

section \<open>The aggregator: \<open>analyzeImageLocal\<close>\<close>

text \<open>What \<open>faceapi.detectAllFaces(...)\<close> resolves to.\<close>

datatype faces_value = NotAnArray | FaceArray "rawFace list"

text \<open>
  The expression \<open>faceapi.detectAllFaces(mlCanvas).withFaceLandmarks()...\<close> of line 196 and
  the task object it builds, as \<open>Promise.resolve\<close> sees it:
  \<^item> \<open>CallThrows\<close>: the expression throws before there is anything to wrap;
  \<^item> \<open>Fulfils\<close>: the task's \<open>then\<close> calls \<open>onFulfilled\<close> with the detections;
  \<^item> \<open>Rejects\<close>: the task's \<open>then\<close> calls \<open>onRejected\<close>;
  \<^item> \<open>NeverSettles\<close>: the task's \<open>then\<close> calls neither.
  The tasks of the face analyzer in use implement \<open>then(onfulfilled)\<close> alone, as
  \<open>onfulfilled(await this.run())\<close>: a detection that fails while it runs calls neither
  callback, so it is \<open>NeverSettles\<close>, and \<open>Rejects\<close> is what a thenable with both callbacks
  would do.
\<close>

datatype face_task = CallThrows failure | Fulfils faces_value | Rejects failure | NeverSettles

text \<open>
  The outcomes of the calls that leave the module, for one run of \<open>analyzeImageLocal\<close>:
  \<^item> \<open>initModels\<close> and \<open>loadImage\<close>: the failure thrown, if any;
  \<^item> \<open>canvasWidth\<close> and \<open>canvasSurface\<close>: the canvas that \<open>getResizedCanvas\<close> returns;
  \<^item> \<open>detect\<close> and \<open>classify\<close>: \<open>None\<close> when the model is \<open>null\<close>, else the promise's
    outcome;
  \<^item> \<open>detectAllFaces\<close>: what the face analyzer's call and task do;
  \<^item> \<open>recognize\<close>: the outcome of the recogniser, for the language hint;
  \<^item> \<open>drawOverlay\<close>: the outcome of the drawing block, which is the data URL unless a
    call threw, and the surface it leaves behind;
  \<^item> \<open>toUpperCase\<close>, \<open>toLowerCase\<close>: the string methods of the runtime;
  \<^item> \<open>inherited\<close>: the keys that a plain object inherits from \<open>Object.prototype\<close>;
  \<^item> \<open>typeError\<close>: what the runtime throws on reading a property of \<open>undefined\<close>;
  \<^item> \<open>notAFunction\<close>: what it throws on calling \<open>charAt\<close> on a value that has none.
\<close>

record env =
  initModels :: "failure option"
  loadImage :: "failure option"
  canvasWidth :: nat
  canvasSurface :: surface
  detect :: "(failure + detection list) option"
  classify :: "(failure + prediction list) option"
  detectAllFaces :: face_task
  recognize :: "Language \<Rightarrow> failure + jsstring"
  drawOverlay :: "jsstring option \<times> surface"
  toUpperCase :: "jsstring \<Rightarrow> jsstring"
  toLowerCase :: "jsstring \<Rightarrow> jsstring"
  inherited :: "jsstring \<Rightarrow> bool"
  typeError :: failure
  notAFunction :: failure

definition capitalize :: "env \<Rightarrow> jsstring \<Rightarrow> jsstring" where
  "capitalize env l = toUpperCase env (take 1 l) @ drop 1 l"

text \<open>The block that processes the faces: the sorted faces, \<open>markedUpImageUrl\<close> and the
  surface of the canvas afterwards.\<close>

definition process_faces ::
  "env \<Rightarrow> faces_value \<Rightarrow> failure + FaceDetail list \<times> jsstring \<times> surface" where
  "process_faces env faceDetections =
     (case faceDetections of
        NotAnArray \<Rightarrow> Inr (sort_faces [], [], canvasSurface env)
      | FaceArray fds \<Rightarrow>
          if length fds > 0
          then (case push_faces (typeError env) (canvasWidth env) fds of
                  Inl e \<Rightarrow> Inl e
                | Inr fs \<Rightarrow>
                    Inr (sort_faces fs,
                         (case fst (drawOverlay env) of None \<Rightarrow> [] | Some u \<Rightarrow> u),
                         snd (drawOverlay env)))
          else Inr (sort_faces [], [], canvasSurface env))"

text \<open>The returned object, from the settled signals.  The labels are built with
  \<open>l.charAt(0)\<close>, which throws when the scene or an object label was looked up to an
  inherited value instead of a string.\<close>

definition assemble ::
  "env \<Rightarrow> Language \<Rightarrow> detection list \<Rightarrow> prediction list \<Rightarrow> FaceDetail list \<Rightarrow> jsstring
     \<Rightarrow> jsstring list \<Rightarrow> jsstring \<Rightarrow> failure + ImageAnalysis" where
  "assemble env lang detections scenePredictions fs markedUp colors ocr =
     (let topScene = (case scenePredictions of
                        [] \<Rightarrow> []
                      | p # _ \<Rightarrow> toLowerCase env (hd (split_at 44 (className p))));
          est = summaries (inherited env) lang fs
      in case translate (inherited env) sceneTranslations topScene of
           Inherited \<Rightarrow> Inl (notAFunction env)
         | Text scenery' \<Rightarrow>
       (case all_text (map (\<lambda>d. translate (inherited env) categoryTranslations (d_class d))
                         detections) of
           None \<Rightarrow> Inl (notAFunction env)
         | Some objs \<Rightarrow>
             Inr \<lparr>objects = objs,
                  labels = map (capitalize env) (set_values (scenery' # objs)),
                  description = describe (inherited env) lang scenery' objs detections fs,
                  confidenceScore =
                    (case scenePredictions of
                       [] \<Rightarrow> 0.8
                     | p # _ \<Rightarrow> if probability p = 0 then 0.8 else probability p),
                  dominantColors = colors,
                  ageEstimate = Some (fst est),
                  emotionEstimate = Some (snd est),
                  faces = Some fs,
                  markedUpImageUrl = Some markedUp,
                  scenery = Some (capitalize env scenery'),
                  ocrText = (if ocr = [] then None else Some ocr),
                  exif = None,
                  location = None\<rparr>))"

text \<open>The four entries of the array given to \<open>Promise.all\<close>.  A model that is \<open>null\<close> gives
  the empty array, and the promises of the object detector and the scene classifier
  carry no handler.  The face analyzer's task is wrapped as
  \<open>Promise.resolve(task).catch(() => [])\<close>: the handler gives the empty array when the task
  rejects, a task that never settles leaves the promise pending (\<open>None\<close>), and a throw of
  the call itself leaves \<open>analyzeImageLocal\<close> at once (\<open>Inl\<close>).  \<open>performOCR\<close> catches
  inside.\<close>

definition detect_promise :: "env \<Rightarrow> failure + detection list" where
  "detect_promise env = (case detect env of None \<Rightarrow> Inr [] | Some r \<Rightarrow> r)"

definition classify_promise :: "env \<Rightarrow> failure + prediction list" where
  "classify_promise env = (case classify env of None \<Rightarrow> Inr [] | Some r \<Rightarrow> r)"

definition faces_promise :: "env \<Rightarrow> (failure + faces_value) option" where
  "faces_promise env =
     (case detectAllFaces env of
        CallThrows e \<Rightarrow> Some (Inl e)
      | Fulfils v \<Rightarrow> Some (Inr v)
      | Rejects e \<Rightarrow> Some (Inr (FaceArray []))
      | NeverSettles \<Rightarrow> None)"

text \<open>The result is \<open>None\<close> when the promise of \<open>analyzeImageLocal\<close> never settles.
  \<open>Promise.all\<close> rejects as soon as one of its promises does; when several calls fail,
  the model reports the first in the order of the array.\<close>

definition analyzeImageLocal :: "env \<Rightarrow> Language \<Rightarrow> (failure + ImageAnalysis) option" where
  "analyzeImageLocal env lang =
     (case initModels env of
        Some e \<Rightarrow> Some (Inl e)
      | None \<Rightarrow>
     (case loadImage env of
        Some e \<Rightarrow> Some (Inl e)
      | None \<Rightarrow>
     (case detect_promise env of
        Inl e \<Rightarrow> Some (Inl e)
      | Inr detections \<Rightarrow>
     (case classify_promise env of
        Inl e \<Rightarrow> Some (Inl e)
      | Inr scenePredictions \<Rightarrow>
     (case faces_promise env of
        None \<Rightarrow> None
      | Some (Inl e) \<Rightarrow> Some (Inl e)
      | Some (Inr faceDetections) \<Rightarrow>
     (let ocr = performOCR (recognize env lang) in
     (case process_faces env faceDetections of
        Inl e \<Rightarrow> Some (Inl e)
      | Inr (fs, markedUp, surface') \<Rightarrow>
     (case getDominantColors surface' of
        Inl e \<Rightarrow> Some (Inl e)
      | Inr colors \<Rightarrow>
          Some (assemble env lang detections scenePredictions fs markedUp colors ocr)))))))))"

section \<open>Record lifecycle: the state updaters of \<open>analyzeSingleRecord\<close>\<close>

text \<open>
  An own property of the object returned by \<open>extractExifData\<close>: the key is missing, or it
  is set, possibly to \<open>undefined\<close>.
\<close>

datatype 'a own_prop = Missing | Present "'a option"

record exifData =
  p_exif :: "exif_block own_prop"
  p_location :: "location own_prop"

fun prop_value :: "'a own_prop \<Rightarrow> 'a option" where
  "prop_value Missing = None"
| "prop_value (Present v) = v"

text \<open>
  The outcome of \<open>exifr.parse\<close>: it throws, it yields nothing, or it yields the tags.  The
  formatting of the camera fields depends on the locale of the runtime and is taken as
  done: the outcome carries the block that lines 139 to 148 build, and the two GPS tags
  (present when they are numbers).
\<close>

datatype parse_outcome =
  ParseThrows failure
| ParseNothing
| ParseTags exif_block "real option" "real option"

fun extractExifData :: "parse_outcome \<Rightarrow> exifData" where
  "extractExifData (ParseThrows e) = \<lparr>p_exif = Missing, p_location = Missing\<rparr>"
| "extractExifData ParseNothing = \<lparr>p_exif = Missing, p_location = Missing\<rparr>"
| "extractExifData (ParseTags b latitude longitude) =
     \<lparr>p_exif = Present (Some b),
      p_location = Present (case (latitude, longitude) of
                          (Some la, Some lo) \<Rightarrow> Some \<lparr>lat = la, lng = lo\<rparr>
                        | _ \<Rightarrow> None)\<rparr>"

text \<open>The object spread \<open>{...img.analysis, ...exifData}\<close>: every own key of the second
  object is written, also when its value is \<open>undefined\<close>.\<close>

definition spread :: "ImageAnalysis \<Rightarrow> exifData \<Rightarrow> ImageAnalysis" where
  "spread a p =
     a\<lparr>exif := (case p_exif p of Missing \<Rightarrow> exif a | Present v \<Rightarrow> v),
       location := (case p_location p of Missing \<Rightarrow> location a | Present v \<Rightarrow> v)\<rparr>"

definition begin_analysis :: "jsstring \<Rightarrow> ImageRecord list \<Rightarrow> ImageRecord list" where
  "begin_analysis recordId prev =
     map (\<lambda>img. if rec_id img = recordId then img\<lparr>status := Analyzing, error := None\<rparr> else img) prev"

definition complete_analysis ::
  "jsstring \<Rightarrow> ImageAnalysis \<Rightarrow> ImageRecord list \<Rightarrow> ImageRecord list" where
  "complete_analysis recordId a prev =
     map (\<lambda>img. if rec_id img = recordId then img\<lparr>status := Completed, analysis := Some a\<rparr> else img) prev"

definition merge_exif :: "jsstring \<Rightarrow> exifData \<Rightarrow> ImageRecord list \<Rightarrow> ImageRecord list" where
  "merge_exif recordId d prev =
     (if prop_value (p_exif d) \<noteq> None \<or> prop_value (p_location d) \<noteq> None
      then map (\<lambda>img. case analysis img of
                    None \<Rightarrow> img
                  | Some a \<Rightarrow> if rec_id img \<noteq> recordId then img
                             else img\<lparr>analysis := Some (spread a d)\<rparr>) prev
      else prev)"

definition error_message :: "failure \<Rightarrow> jsstring \<Rightarrow> jsstring" where
  "error_message e unknownError =
     (case message e of None \<Rightarrow> unknownError
      | Some m \<Rightarrow> if m = [] then unknownError else m)"

definition fail_analysis ::
  "jsstring \<Rightarrow> failure \<Rightarrow> jsstring \<Rightarrow> ImageRecord list \<Rightarrow> ImageRecord list" where
  "fail_analysis recordId e unknownError prev =
     map (\<lambda>img. if rec_id img = recordId
                then img\<lparr>status := Error, error := Some (error_message e unknownError)\<rparr>
                else img) prev"

text \<open>The foreground part of \<open>analyzeSingleRecord\<close>, from the aggregator's outcome:
  the record enters \<open>analyzing\<close>, then \<open>completed\<close> or \<open>error\<close>.  While the aggregator's
  promise is pending, nothing more is written.\<close>

definition analyzeSingleRecord ::
  "(failure + ImageAnalysis) option \<Rightarrow> jsstring \<Rightarrow> jsstring \<Rightarrow> ImageRecord list
     \<Rightarrow> ImageRecord list" where
  "analyzeSingleRecord outcome unknownError recordId prev =
     (let s = begin_analysis recordId prev in
      case outcome of
        None \<Rightarrow> s
      | Some (Inr a) \<Rightarrow> complete_analysis recordId a s
      | Some (Inl e) \<Rightarrow> fail_analysis recordId e unknownError s)"

text \<open>
  The metadata of a record comes from its own file: the url of a record never changes,
  so every extraction that yields tags yields the tags \<open>p\<close> of that file.  An analysis
  of the record carries no metadata yet, as \<open>analyzeImageLocal\<close> returns it, or the
  metadata that a merge of these tags has written.
\<close>

definition metadata_of :: "parse_outcome \<Rightarrow> ImageAnalysis \<Rightarrow> bool" where
  "metadata_of p a \<longleftrightarrow>
     (exif a = None \<and> location a = None) \<or>
     (exif a = prop_value (p_exif (extractExifData p)) \<and>
      location a = prop_value (p_location (extractExifData p)))"

text \<open>An extraction of the file with the tags \<open>p\<close>: it fails, finds nothing, or yields
  \<open>p\<close>.\<close>

definition extraction_of :: "parse_outcome \<Rightarrow> parse_outcome \<Rightarrow> bool" where
  "extraction_of p q = (case q of ParseTags b la lo \<Rightarrow> q = p | _ \<Rightarrow> True)"

section \<open>Example values\<close>

definition example_analysis :: ImageAnalysis where
  "example_analysis =
     \<lparr>objects = [lit ''pies''], labels = [lit ''Park'', lit ''Pies''],
      description = lit ''Sceneria: park. Wykryto: pies. '', confidenceScore = 0.7,
      dominantColors = [lit ''#336699''], ageEstimate = Some [], emotionEstimate = Some [],
      faces = Some [], markedUpImageUrl = Some [], scenery = Some (lit ''Park''),
      ocrText = None, exif = None, location = None\<rparr>"

definition example_record :: ImageRecord where
  "example_record =
     \<lparr>rec_id = lit ''r1'', name = lit ''a.jpg'', url = lit ''blob:1'', base64 = [],
      mimeType = lit ''image/jpeg'', size_bytes = 2048, status = Completed,
      analysis = Some example_analysis, error = None\<rparr>"

definition example_block :: exif_block where
  "example_block =
     \<lparr>exif_make = Some (lit ''Canon''), exif_model = None, exif_dateTime = Some [],
      exif_exposureTime = None, exif_fNumber = None, exif_iso = Some 100\<rparr>"

text \<open>The tags of a file taken with a camera that records the position.\<close>

definition example_tags :: parse_outcome where
  "example_tags = ParseTags example_block (Some 52) (Some 21)"

text \<open>An environment for the examples: a 600 pixel wide canvas with two faces, reported
  right to left, one detected object, one scene and three lines of text.  The two case
  conversions are those of the ASCII letters, which is all the examples hold.\<close>

definition ascii_upper :: "jsstring \<Rightarrow> jsstring" where
  "ascii_upper s = map (\<lambda>c. if 97 \<le> c \<and> c \<le> 122 then c - 32 else c) s"

definition ascii_lower :: "jsstring \<Rightarrow> jsstring" where
  "ascii_lower s = map (\<lambda>c. if 65 \<le> c \<and> c \<le> 90 then c + 32 else c) s"

definition example_face :: "real \<Rightarrow> real \<Rightarrow> real \<Rightarrow> real \<Rightarrow> rawFace" where
  "example_face bx bw a sc =
     \<lparr>detection_box = \<lparr>box_x = bx, box_y = 40, box_width = bw, box_height = 60\<rparr>,
      raw_age = a, raw_gender = lit ''male'', raw_genderProbability = 0.9,
      expressions = Some [(lit ''neutral'', 0.05), (lit ''happy'', sc), (lit ''sad'', 0.01)]\<rparr>"

text \<open>The property names of \<open>Object.prototype\<close> in the browsers.\<close>

definition object_prototype_keys :: "jsstring list" where
  "object_prototype_keys =
     [lit ''constructor'', lit ''__proto__'', lit ''hasOwnProperty'', lit ''isPrototypeOf'',
      lit ''propertyIsEnumerable'', lit ''toLocaleString'', lit ''toString'', lit ''valueOf'',
      lit ''__defineGetter__'', lit ''__defineSetter__'', lit ''__lookupGetter__'',
      lit ''__lookupSetter__'']"

definition example_pixels :: "8 word list" where
  "example_pixels = [0x33, 0x66, 0x99, 0xFF, 0, 0, 0, 0xFF]"

definition example_env :: env where
  "example_env =
     \<lparr>initModels = None, loadImage = None, canvasWidth = 600,
      canvasSurface = Pixels example_pixels,
      detect = Some (Inr [\<lparr>d_class = lit ''dog'', d_score = 0.9\<rparr>]),
      classify = Some (Inr [\<lparr>className = lit ''park, green'', probability = 0.7\<rparr>]),
      detectAllFaces =
        Fulfils (FaceArray [example_face 500 50 30.4 0.08, example_face 100 50 41.6 0.9]),
      recognize = (\<lambda>l. Inr (lit ''  STOP 12  '' @ [10] @ lit ''~~~~~~~a'' @ [10]
                              @ lit ''ul. Polna'')),
      drawOverlay = (Some (lit ''data:image/jpeg;base64,AA''), Pixels example_pixels),
      toUpperCase = ascii_upper, toLowerCase = ascii_lower,
      inherited = (\<lambda>k. k \<in> set object_prototype_keys),
      typeError = Failure (Some (lit ''Cannot read properties of undefined'')),
      notAFunction = Failure (Some (lit ''l.charAt is not a function''))\<rparr>"

text \<open>A face whose centre is at 0.33 of a 100 pixel wide canvas.\<close>

definition boundary_env :: env where
  "boundary_env =
     example_env\<lparr>canvasWidth := 100,
                 detectAllFaces := Fulfils (FaceArray [example_face 23 20 30 0.9])\<rparr>"

text \<open>The example environment with a face detection that fails while it runs, with a
  face analyzer whose call throws, and with an object detector that rejects.\<close>

definition faces_fail_env :: env where
  "faces_fail_env = example_env\<lparr>detectAllFaces := NeverSettles\<rparr>"

definition faces_throw_env :: env where
  "faces_throw_env =
     example_env\<lparr>detectAllFaces := CallThrows (Failure (Some (lit ''no backend'')))\<rparr>"

definition detector_fail_env :: env where
  "detector_fail_env = example_env\<lparr>detect := Some (Inl (Failure (Some (lit ''detect failed''))))\<rparr>"

text \<open>A canvas of 2001 pixels whose fixed-stride sample is red, blue, blue.\<close>

definition striped_pixels :: "8 word list" where
  "striped_pixels =
     [0xFF, 0, 0, 0xFF] @ replicate 3996 0 @ [0, 0, 0xFF, 0xFF] @ replicate 3996 0
     @ [0, 0, 0xFF, 0xFF]"

definition striped_env :: env where
  "striped_env =
     example_env\<lparr>canvasSurface := Pixels striped_pixels, detectAllFaces := Fulfils (FaceArray [])\<rparr>"

section \<open>Theorems\<close>

subsection \<open>The aggregator\<close>

lemma analyzeImageLocal_Inr:
  assumes "analyzeImageLocal env lang = Some (Inr a)"
  shows "\<exists>detections scenePredictions faceDetections fs markedUp surface' colors.
           detect_promise env = Inr detections \<and>
           classify_promise env = Inr scenePredictions \<and>
           faces_promise env = Some (Inr faceDetections) \<and>
           process_faces env faceDetections = Inr (fs, markedUp, surface') \<and>
           getDominantColors surface' = Inr colors \<and>
           assemble env lang detections scenePredictions fs markedUp colors
             (performOCR (recognize env lang)) = Inr a"
  using assms
  by (auto simp: analyzeImageLocal_def Let_def split: option.splits sum.splits prod.splits)

lemma assemble_Inr:
  assumes "assemble env lang ds ps fs m cs ocr = Inr a"
  shows "faces a = Some fs"
    and "ageEstimate a = Some (fst (summaries (inherited env) lang fs))"
    and "emotionEstimate a = Some (snd (summaries (inherited env) lang fs))"
    and "markedUpImageUrl a = Some m"
    and "dominantColors a = cs"
    and "ocrText a = (if ocr = [] then None else Some ocr)"
    and "exif a = None" and "location a = None"
  using assms
  by (auto simp: assemble_def Let_def split: looked_up.splits option.splits)

lemma process_faces_Inr:
  assumes "process_faces env v = Inr (fs, m, s)"
  shows "\<exists>raw pushed. push_faces (typeError env) (canvasWidth env) raw = Inr pushed \<and>
           fs = sort_faces pushed"
proof (cases v)
  case NotAnArray
  with assms have "fs = sort_faces []" by (simp add: process_faces_def)
  moreover have "push_faces (typeError env) (canvasWidth env) [] = Inr []" by simp
  ultimately show ?thesis by blast
next
  case (FaceArray fds)
  show ?thesis
  proof (cases "fds = []")
    case True
    with assms FaceArray have "fs = sort_faces []" by (simp add: process_faces_def)
    moreover have "push_faces (typeError env) (canvasWidth env) [] = Inr []" by simp
    ultimately show ?thesis by blast
  next
    case False
    with assms FaceArray show ?thesis
      by (auto simp: process_faces_def split: sum.splits)
  qed
qed

lemma faceDetail_position:
  assumes "faceDetail te w fd = Inr f"
  shows "position f = face_position w (box f)"
  using assms
  by (auto simp: faceDetail_def face_position_def Let_def split: sum.splits prod.splits)

lemma push_faces_position:
  assumes "push_faces te w raw = Inr pushed"
  shows "\<forall>f \<in> set pushed. position f = face_position w (box f)"
  using assms
proof (induction raw arbitrary: pushed)
  case Nil
  then show ?case by simp
next
  case (Cons fd fds)
  then show ?case
    by (auto split: sum.splits dest: faceDetail_position)
qed

lemma analysis_faces:
  assumes "analyzeImageLocal env lang = Some (Inr a)"
  shows "\<exists>raw pushed. push_faces (typeError env) (canvasWidth env) raw = Inr pushed \<and>
           faces a = Some (sort_faces pushed) \<and>
           ageEstimate a = Some (fst (summaries (inherited env) lang (sort_faces pushed))) \<and>
           emotionEstimate a = Some (snd (summaries (inherited env) lang (sort_faces pushed)))"
proof -
  from analyzeImageLocal_Inr [OF assms] obtain ds ps fv fs m s cs where
    pf: "process_faces env fv = Inr (fs, m, s)" and
    a: "assemble env lang ds ps fs m cs (performOCR (recognize env lang)) = Inr a"
    by blast
  from process_faces_Inr [OF pf] assemble_Inr(1-3) [OF a] show ?thesis by auto
qed

text \<open>What evaluates the example environment: its labels are own keys or no keys of
  the tables.\<close>

lemmas example_defs =
  analyzeImageLocal_def example_env_def process_faces_def detect_promise_def
  classify_promise_def faces_promise_def example_face_def faceDetail_def top_emotion_def
  sort_descending_def getDominantColors_def sort_faces_def face_position_def Math_round_def
  assemble_def translate_def categoryTranslations_def sceneTranslations_def
  object_prototype_keys_def ascii_lower_def Let_def

lemma example_env_faces:
  "\<exists>a fs. analyzeImageLocal example_env lang = Some (Inr a) \<and> faces a = Some fs \<and>
        map (\<lambda>f. box_x (box f)) fs = [100, 500] \<and>
        map position fs = [PosLeft, PosRight] \<and>
        map age fs = [42, 30] \<and>
        map emotionScore fs = [0.9, 0.08]"
  by (simp add: example_defs lit_def)

text \<open>
  C4: whatever the order in which the face analyzer reports the faces, the face sequence
  of a returned analysis is sorted by ascending \<open>box.x\<close>.
\<close>

theorem faces_sorted_by_x:
  assumes "analyzeImageLocal env lang = Some (Inr a)"
  shows "\<exists>fs. faces a = Some fs \<and> sorted (map (\<lambda>f. box_x (box f)) fs)"
  using analysis_faces [OF assms] by (auto simp: sort_faces_def)

theorem faces_sorted_by_x_witness:
  "\<exists>a fs. analyzeImageLocal example_env PL = Some (Inr a) \<and> faces a = Some fs \<and>
          map (\<lambda>f. box_x (box f)) fs = [100, 500] \<and>
          sorted (map (\<lambda>f. box_x (box f)) fs)"
proof -
  from example_env_faces [of PL] obtain a fs where
    a: "analyzeImageLocal example_env PL = Some (Inr a)" and
    f: "faces a = Some fs" "map (\<lambda>f. box_x (box f)) fs = [100, 500]"
    by auto
  from faces_sorted_by_x [OF a] f show ?thesis using a by auto
qed

text \<open>
  C1, as the code has it: the position of every face of a returned analysis is decided
  by the centre \<open>box.x + box.width / 2\<close> and the width of the canvas alone: left when the
  centre is below 0.33 of the width, right when it is above 0.66 of it, center
  otherwise.  Both comparisons are strict, so a centre at exactly 0.33 (or 0.66) of the
  width is classified as center.
\<close>

theorem face_position_thresholds:
  assumes "analyzeImageLocal env lang = Some (Inr a)"
  shows "\<exists>fs. faces a = Some fs \<and>
           (\<forall>f \<in> set fs.
              let c = box_x (box f) + box_width (box f) / 2; w = real (canvasWidth env) in
              (c < 0.33 * w \<longrightarrow> position f = PosLeft) \<and>
              (c > 0.66 * w \<longrightarrow> position f = PosRight) \<and>
              (0.33 * w \<le> c \<and> c \<le> 0.66 * w \<longrightarrow> position f = PosCenter))"
proof -
  from analysis_faces [OF assms] obtain raw pushed where
    p: "push_faces (typeError env) (canvasWidth env) raw = Inr pushed" and
    f: "faces a = Some (sort_faces pushed)"
    by blast
  have "\<forall>f \<in> set (sort_faces pushed). position f = face_position (canvasWidth env) (box f)"
    using push_faces_position [OF p] by (simp add: sort_faces_def)
  then have "\<forall>f \<in> set (sort_faces pushed).
              let c = box_x (box f) + box_width (box f) / 2; w = real (canvasWidth env) in
              (c < 0.33 * w \<longrightarrow> position f = PosLeft) \<and>
              (c > 0.66 * w \<longrightarrow> position f = PosRight) \<and>
              (0.33 * w \<le> c \<and> c \<le> 0.66 * w \<longrightarrow> position f = PosCenter)"
    by (auto simp: face_position_def Let_def mult.commute)
  with f show ?thesis by blast
qed

theorem face_position_thresholds_witness:
  "\<exists>a fs. analyzeImageLocal example_env PL = Some (Inr a) \<and> faces a = Some fs \<and>
          map (\<lambda>f. box_x (box f)) fs = [100, 500] \<and>
          map position fs = [PosLeft, PosRight]"
proof -
  from example_env_faces [of PL] obtain a fs where
    a: "analyzeImageLocal example_env PL = Some (Inr a)" and
    f: "faces a = Some fs" "map (\<lambda>f. box_x (box f)) fs = [100, 500]"
       "map position fs = [PosLeft, PosRight]"
    by auto
  from face_position_thresholds [OF a] f show ?thesis using a by auto
qed

text \<open>
  C1, as the spec has it, fails at the boundary: a face whose centre is at exactly 0.33 of
  the width (23 + 20 / 2 on a canvas 100 wide) is classified as center, not as left.
\<close>

theorem boundary_face_is_center:
  "(23::real) + 20 / 2 = 0.33 * real (canvasWidth boundary_env) \<and>
   (case analyzeImageLocal boundary_env PL of
      Some (Inr a) \<Rightarrow>
        map_option (map (\<lambda>f. (box_x (box f), box_width (box f), position f))) (faces a)
    | _ \<Rightarrow> None) = Some [(23, 20, PosCenter)]"
  by (simp add: boundary_env_def example_defs lit_def)

lemma fold_age_sum: "fold (\<lambda>curr acc. acc + age curr) fs k = k + sum_list (map age fs)"
  by (induction fs arbitrary: k) auto

lemma emotion_summary_nonempty: "emotion_summary inh lang f \<noteq> []"
  by (simp add: emotion_summary_def lit_def Let_def)

lemma summaries_Nil: "summaries inh lang [] = ([], [])"
  by (simp add: summaries_def)

lemma summaries_nonempty:
  assumes "fs \<noteq> []"
  shows "fst (summaries inh lang fs)
           = age_summary lang (length fs)
               (Math_round (real_of_int (sum_list (map age fs)) / real (length fs)))
               (genderTrans lang (gender (hd fs)))"
    and "snd (summaries inh lang fs)
           = (if emotionScore (hd fs) > 0.1 then emotion_summary inh lang (hd fs) else [])"
  using assms by (cases fs; simp add: summaries_def fold_age_sum Let_def)+

lemma toString_radix_digits:
  "c \<in> set (toString_radix 10 n) \<Longrightarrow> 48 \<le> c \<and> c \<le> 57"
proof (induction "10::nat" n rule: toString_radix.induct)
  case (1 n)
  show ?case
  proof (cases "n < 10")
    case True
    with 1(2) show ?thesis by (simp add: toString_radix.simps [of 10 n] digit_char_def)
  next
    case False
    with 1 show ?thesis
      by (auto simp: toString_radix.simps [of 10 n] digit_char_def)
  qed
qed

lemma toString_radix_nonempty: "toString_radix b n \<noteq> []"
  by (simp add: toString_radix.simps [of b n])

lemma digits_value_snoc: "digits_value (s @ [c]) = 10 * digits_value s + (c - 48)"
  by (simp add: digits_value_def)

lemma digits_value_toString: "digits_value (toString_radix 10 n) = n"
proof (induction "10::nat" n rule: toString_radix.induct)
  case (1 n)
  show ?case
  proof (cases "n < 10")
    case True
    then show ?thesis
      by (simp add: toString_radix.simps [of 10 n] digit_char_def digits_value_def)
  next
    case False
    with 1 show ?thesis
      by (simp add: toString_radix.simps [of 10 n] digit_char_def digits_value_snoc)
  qed
qed

lemma decimal_value_number_string: "decimal_value (number_string i) = i"
proof (cases "i < 0")
  case True
  then show ?thesis
    by (simp add: number_string_def decimal_value_def digits_value_toString)
next
  case False
  obtain c cs where s: "toString_radix 10 (nat i) = c # cs"
    using toString_radix_nonempty [of 10 "nat i"] by (cases "toString_radix 10 (nat i)") auto
  then have "c \<in> set (toString_radix 10 (nat i))" by simp
  then have "c \<noteq> 45" using toString_radix_digits by fastforce
  with s have "decimal_value (toString_radix 10 (nat i)) = int (digits_value (toString_radix 10 (nat i)))"
    by (simp add: decimal_value_def)
  with False show ?thesis by (simp add: number_string_def digits_value_toString)
qed

text \<open>
  C5: in a returned analysis with no face, \<open>ageEstimate\<close> and \<open>emotionEstimate\<close> are both
  the empty string.  With at least one face, \<open>ageEstimate\<close> is a non-empty string: when
  there are several faces it starts with their number, and it goes on with the average
  of the ages of all faces, rounded to the nearest integer, and the word for the gender
  of the first (leftmost) face in the language chosen; both numbers are printed as
  decimal numerals.  \<open>emotionEstimate\<close> is non-empty exactly when the emotion score of the
  first face is above 0.1.
\<close>

theorem legacy_summaries:
  assumes "analyzeImageLocal env lang = Some (Inr a)"
  shows "\<exists>fs. faces a = Some fs \<and>
           (fs = [] \<longrightarrow> ageEstimate a = Some [] \<and> emotionEstimate a = Some []) \<and>
           (fs \<noteq> [] \<longrightarrow>
              (\<exists>s number average.
                 ageEstimate a = Some s \<and> s \<noteq> [] \<and>
                 decimal_value number = int (length fs) \<and>
                 decimal_value average
                   = \<lfloor>real_of_int (sum_list (map age fs)) / real (length fs) + 1 / 2\<rfloor> \<and>
                 s = (if 1 < length fs
                      then (if lang = PL then lit ''Wykryto '' @ number @ lit '' twarze. ''
                            else lit ''Detected '' @ number @ lit '' faces. '')
                      else [])
                     @ (if lang = PL then lit ''Osoba ok. '' @ average @ lit '' lat (''
                        else lit ''Person approx. '' @ average @ lit '' years ('')
                     @ (if gender (hd fs) = lit ''male''
                        then (if lang = PL then lit ''M'' @ [0x119, 0x17C] @ lit ''czyzna''
                              else lit ''Male'')
                        else (if lang = PL then lit ''Kobieta'' else lit ''Female''))
                     @ lit '')'') \<and>
              (\<exists>t. emotionEstimate a = Some t \<and> (t \<noteq> [] \<longleftrightarrow> emotionScore (hd fs) > 0.1)))"
proof -
  from analysis_faces [OF assms] obtain pushed where
    f: "faces a = Some (sort_faces pushed)" and
    ae: "ageEstimate a = Some (fst (summaries (inherited env) lang (sort_faces pushed)))" and
    ee: "emotionEstimate a = Some (snd (summaries (inherited env) lang (sort_faces pushed)))"
    by blast
  let ?fs = "sort_faces pushed"
  let ?avg = "\<lfloor>real_of_int (sum_list (map age ?fs)) / real (length ?fs) + 1 / 2\<rfloor>"
  let ?number = "number_string (int (length ?fs))"
  let ?average = "number_string ?avg"
  let ?s = "(if 1 < length ?fs
             then (if lang = PL then lit ''Wykryto '' @ ?number @ lit '' twarze. ''
                   else lit ''Detected '' @ ?number @ lit '' faces. '')
             else [])
            @ (if lang = PL then lit ''Osoba ok. '' @ ?average @ lit '' lat (''
               else lit ''Person approx. '' @ ?average @ lit '' years ('')
            @ (if gender (hd ?fs) = lit ''male''
               then (if lang = PL then lit ''M'' @ [0x119, 0x17C] @ lit ''czyzna''
                     else lit ''Male'')
               else (if lang = PL then lit ''Kobieta'' else lit ''Female''))
            @ lit '')''"
  have empty: "?fs = [] \<longrightarrow> ageEstimate a = Some [] \<and> emotionEstimate a = Some []"
    using ae ee by (simp add: summaries_Nil)
  have age: "ageEstimate a = Some ?s" if "?fs \<noteq> []"
    using ae that
    by (simp add: summaries_nonempty age_summary_def genderTrans_def Math_round_def)
  have ne: "?s \<noteq> []" by (simp add: lit_def)
  have emo: "\<exists>t. emotionEstimate a = Some t \<and> (t \<noteq> [] \<longleftrightarrow> emotionScore (hd ?fs) > 0.1)"
    if "?fs \<noteq> []"
    using ee that by (simp add: summaries_nonempty emotion_summary_nonempty)
  have "\<exists>s number average.
                 ageEstimate a = Some s \<and> s \<noteq> [] \<and>
                 decimal_value number = int (length ?fs) \<and>
                 decimal_value average = ?avg \<and>
                 s = (if 1 < length ?fs
                      then (if lang = PL then lit ''Wykryto '' @ number @ lit '' twarze. ''
                            else lit ''Detected '' @ number @ lit '' faces. '')
                      else [])
                     @ (if lang = PL then lit ''Osoba ok. '' @ average @ lit '' lat (''
                        else lit ''Person approx. '' @ average @ lit '' years ('')
                     @ (if gender (hd ?fs) = lit ''male''
                        then (if lang = PL then lit ''M'' @ [0x119, 0x17C] @ lit ''czyzna''
                              else lit ''Male'')
                        else (if lang = PL then lit ''Kobieta'' else lit ''Female''))
                     @ lit '')''"
    if "?fs \<noteq> []"
    using age [OF that] ne decimal_value_number_string [of "int (length ?fs)"]
      decimal_value_number_string [of ?avg]
    by (intro exI [of _ ?s] exI [of _ ?number] exI [of _ ?average]) (intro conjI refl)
  with empty emo f show ?thesis by blast
qed

lemma example_env_summaries:
  "\<exists>a fs. analyzeImageLocal example_env EN = Some (Inr a) \<and> faces a = Some fs \<and> length fs = 2 \<and>
          ageEstimate a = Some (lit ''Detected 2 faces. Person approx. 36 years (Male)'') \<and>
          emotionEstimate a = Some (lit ''Happy (90%)'')"
  by (simp add: example_defs summaries_def age_summary_def emotion_summary_def
      genderTrans_def emotion_trans_def emotionTranslations_def number_string_def
      toString_radix.simps digit_char_def lit_def)

theorem legacy_summaries_witness:
  "\<exists>a fs. analyzeImageLocal example_env EN = Some (Inr a) \<and> faces a = Some fs \<and> length fs = 2 \<and>
          ageEstimate a = Some (lit ''Detected 2 faces. Person approx. 36 years (Male)'') \<and>
          emotionEstimate a = Some (lit ''Happy (90%)'') \<and>
          emotionScore (hd fs) > 0.1"
proof -
  from example_env_summaries obtain a fs where
    a: "analyzeImageLocal example_env EN = Some (Inr a)" and
    f: "faces a = Some fs" "length fs = 2"
       "ageEstimate a = Some (lit ''Detected 2 faces. Person approx. 36 years (Male)'')"
       "emotionEstimate a = Some (lit ''Happy (90%)'')"
    by auto
  from f(2) have ne: "fs \<noteq> []" by auto
  from legacy_summaries [OF a] f(1) ne
  have "\<exists>t. emotionEstimate a = Some t \<and> (t \<noteq> [] \<longleftrightarrow> emotionScore (hd fs) > 0.1)"
    by auto
  with f(4) have "emotionScore (hd fs) > 0.1" by (auto simp: lit_def)
  with a f show ?thesis by blast
qed

text \<open>
  C6 against the code: the handler \<open>catch(() => [])\<close> is there to turn a failure of the
  face analyzer into an empty face sequence, but it is attached to
  \<open>Promise.resolve(task)\<close>, and the task calls neither callback when its detection fails.
  So the promise of the aggregator never settles and the record stays in \<open>analyzing\<close>:
  it reaches neither \<open>completed\<close> nor \<open>error\<close>.  And when the call itself throws, no
  promise exists yet for the handler: the aggregator fails and the record ends in \<open>error\<close>.
\<close>

theorem face_analyzer_failure_never_completes:
  "analyzeImageLocal faces_fail_env PL = None \<and>
   status (analyzeSingleRecord (analyzeImageLocal faces_fail_env PL)
             (lit ''Unknown error'') (lit ''r1'')
             [example_record\<lparr>status := Pending, analysis := None\<rparr>] ! 0) = Analyzing \<and>
   analyzeImageLocal faces_throw_env PL = Some (Inl (Failure (Some (lit ''no backend'')))) \<and>
   status (analyzeSingleRecord (analyzeImageLocal faces_throw_env PL)
             (lit ''Unknown error'') (lit ''r1'')
             [example_record\<lparr>status := Pending, analysis := None\<rparr>] ! 0) = Error"
  by (simp add: analyzeImageLocal_def faces_fail_env_def faces_throw_env_def example_env_def
      detect_promise_def classify_promise_def faces_promise_def analyzeSingleRecord_def
      begin_analysis_def fail_analysis_def example_record_def)

text \<open>
  C3 against the code: the promise of the object detector carries no handler (nor does
  the scene classifier's), so when \<open>detect\<close> rejects, \<open>Promise.all\<close> rejects, the whole
  analysis fails with the detector's failure and the record ends in \<open>error\<close>, although
  every other signal was delivered.
\<close>

theorem object_detector_failure_fails_analysis:
  "analyzeImageLocal detector_fail_env PL
     = Some (Inl (Failure (Some (lit ''detect failed'')))) \<and>
   status (analyzeSingleRecord (analyzeImageLocal detector_fail_env PL)
             (lit ''Unknown error'') (lit ''r1'') [example_record] ! 0) = Error"
  by (simp add: analyzeImageLocal_def detector_fail_env_def example_env_def detect_promise_def
      analyzeSingleRecord_def begin_analysis_def fail_analysis_def example_record_def)

subsection \<open>Text recognition\<close>

lemma last_dropWhile: "dropWhile P xs \<noteq> [] \<Longrightarrow> last (dropWhile P xs) = last xs"
  by (induction xs) (auto split: if_splits)

lemma trim_ends:
  assumes "trim s \<noteq> []"
  shows "\<not> is_space (hd (trim s))" and "\<not> is_space (last (trim s))"
proof -
  let ?u = "dropWhile is_space s"
  let ?v = "dropWhile is_space (rev ?u)"
  from assms have v: "?v \<noteq> []" by (simp add: trim_def)
  then have u: "?u \<noteq> []" by (metis dropWhile.simps(1) rev.simps(1))
  have "hd (trim s) = last ?v" by (simp add: trim_def hd_rev)
  also have "\<dots> = last (rev ?u)" using v by (rule last_dropWhile)
  also have "\<dots> = hd ?u" by (simp add: last_rev)
  finally show "\<not> is_space (hd (trim s))" using hd_dropWhile [OF u] by simp
  have "last (trim s) = hd ?v" by (simp add: trim_def last_rev)
  then show "\<not> is_space (last (trim s))" using hd_dropWhile [OF v] by simp
qed

lemma dropWhile_hd: "\<not> P (hd xs) \<Longrightarrow> dropWhile P xs = xs"
  by (cases xs) auto

lemma trim_fixed:
  assumes "\<not> is_space (hd t)" and "\<not> is_space (last t)"
  shows "trim t = t"
proof -
  have 1: "dropWhile is_space t = t" using assms(1) by (rule dropWhile_hd)
  have "\<not> is_space (hd (rev t))" using assms(2) by (simp add: hd_rev)
  then have 2: "dropWhile is_space (rev t) = rev t" by (rule dropWhile_hd)
  show ?thesis by (simp add: trim_def 1 2)
qed

lemma set_trim: "set (trim s) \<subseteq> set s"
  by (auto simp: trim_def dest!: set_dropWhileD)

lemma split_at_nonempty [simp]: "split_at c s \<noteq> []"
  by (induction s) (auto split: list.splits)

lemma split_at_no_sep: "l \<in> set (split_at c s) \<Longrightarrow> c \<notin> set l"
proof (induction s arbitrary: l)
  case Nil
  then show ?case by simp
next
  case (Cons u us)
  obtain h t where ht: "split_at c us = h # t" by (cases "split_at c us") auto
  with Cons show ?case by (auto split: if_splits)
qed

lemma split_at_plain: "c \<notin> set l \<Longrightarrow> split_at c l = [l]"
  by (induction l) (auto split: list.splits)

lemma split_at_append: "c \<notin> set l \<Longrightarrow> split_at c (l @ c # rest) = l # split_at c rest"
  by (induction l) (auto split: list.splits)

lemma split_at_join:
  assumes "ls \<noteq> []" and "\<forall>l \<in> set ls. c \<notin> set l"
  shows "split_at c (join [c] ls) = ls"
  using assms
proof (induction "[c]" ls rule: join.induct)
  case 1
  then show ?case by simp
next
  case (2 s)
  then show ?case by (simp add: split_at_plain)
next
  case (3 s t ts)
  then show ?case by (simp add: split_at_append)
qed

lemma join_ends:
  assumes "ls \<noteq> []" and "\<forall>l \<in> set ls. l \<noteq> []"
  shows "join sep ls \<noteq> []" and "hd (join sep ls) = hd (hd ls)"
    and "last (join sep ls) = last (last ls)"
  using assms by (induction sep ls rule: join.induct) auto


lemma filter_line_Some:
  assumes "filter_line line = Some t"
  shows "t = trim line" and "t \<noteq> []" and "2 \<le> length (filter is_alnum t)"
    and "0.3 \<le> real (length (filter is_alnum t)) / real (length t)"
  using assms by (auto simp: filter_line_def Let_def split: if_splits)

lemma filter_Boolean_member:
  "t \<in> set (filter_Boolean (map filter_line ls)) \<Longrightarrow>
     \<exists>line \<in> set ls. filter_line line = Some t"
  by (auto simp: filter_Boolean_def)

lemma clean_text_lines:
  assumes "clean_text text \<noteq> []"
  shows "3 \<le> length (clean_text text)"
    and "split_at 0xA (clean_text text) = filter_Boolean (map filter_line (split_at 0xA text))"
proof -
  let ?fl = "filter_Boolean (map filter_line (split_at 0xA text))"
  let ?j = "join [0xA] ?fl"
  from assms have c: "clean_text text = trim ?j" and len: "3 \<le> length (trim ?j)"
    by (auto simp: clean_text_def Let_def split: if_splits)
  from len c show "3 \<le> length (clean_text text)" by simp
  have fl: "?fl \<noteq> []"
  proof
    assume "?fl = []"
    then have "trim ?j = []" by (simp add: trim_def)
    with len show False by simp
  qed
  have each: "\<exists>line \<in> set (split_at 0xA text). filter_line line = Some t" if "t \<in> set ?fl" for t
    using that by (rule filter_Boolean_member)
  have ne: "\<forall>t \<in> set ?fl. t \<noteq> []"
    using each filter_line_Some(2) by blast
  have nosep: "\<forall>t \<in> set ?fl. 0xA \<notin> set t"
  proof
    fix t assume "t \<in> set ?fl"
    with each obtain line where l: "line \<in> set (split_at 0xA text)" "filter_line line = Some t"
      by blast
    from l(2) have "t = trim line" by (rule filter_line_Some(1))
    with set_trim [of line] split_at_no_sep [OF l(1)] show "0xA \<notin> set t" by auto
  qed
  have ends: "\<not> is_space (hd t) \<and> \<not> is_space (last t)" if "t \<in> set ?fl" for t
  proof -
    from each [OF that] obtain line where l: "filter_line line = Some t" by blast
    from filter_line_Some(1,2) [OF l] trim_ends [of line] show ?thesis by simp
  qed
  have "hd ?fl \<in> set ?fl" and "last ?fl \<in> set ?fl" using fl by simp_all
  with ends have "\<not> is_space (hd (hd ?fl))" and "\<not> is_space (last (last ?fl))" by blast+
  then have "\<not> is_space (hd ?j)" and "\<not> is_space (last ?j)"
    using join_ends(2,3) [OF fl ne] by simp_all
  then have "trim ?j = ?j" by (rule trim_fixed)
  with c have "clean_text text = ?j" by simp
  then show "split_at 0xA (clean_text text) = ?fl"
    using split_at_join [OF fl nosep] by simp
qed

lemma analysis_ocrText:
  assumes "analyzeImageLocal env lang = Some (Inr a)"
  shows "ocrText a = (let t = performOCR (recognize env lang) in if t = [] then None else Some t)"
proof -
  from analyzeImageLocal_Inr [OF assms] obtain ds ps fs m cs where
    "assemble env lang ds ps fs m cs (performOCR (recognize env lang)) = Inr a"
    by blast
  from assemble_Inr(6) [OF this] show ?thesis by (simp add: Let_def)
qed

text \<open>
  C10: in a returned analysis \<open>ocrText\<close> is never the empty string.  It is absent, or it is
  a text of at least 3 code units whose lines are trimmed lines of the recognised text,
  each with at least 2 alphanumeric code units that make up at least 30% of the line.
  When the recogniser fails, the field is absent.
\<close>

theorem ocr_text_absent_or_filtered:
  assumes "analyzeImageLocal env lang = Some (Inr a)"
  shows "ocrText a \<noteq> Some [] \<and>
         (\<forall>s. ocrText a = Some s \<longrightarrow>
            3 \<le> length s \<and>
            (\<exists>text. recognize env lang = Inr text \<and>
               (\<forall>l \<in> set (split_at 0xA s).
                  (\<exists>line \<in> set (split_at 0xA text). l = trim line) \<and>
                  2 \<le> length (filter is_alnum l) \<and>
                  0.3 \<le> real (length (filter is_alnum l)) / real (length l)))) \<and>
         ((\<exists>e. recognize env lang = Inl e) \<longrightarrow> ocrText a = None)"
proof (intro conjI allI impI)
  note o = analysis_ocrText [OF assms]
  show "ocrText a \<noteq> Some []" using o by (simp add: Let_def)
  show "ocrText a = None" if "\<exists>e. recognize env lang = Inl e"
    using o that by (auto simp: performOCR_def)
  fix s assume s: "ocrText a = Some s"
  with o have p: "performOCR (recognize env lang) = s" and sn: "s \<noteq> []"
    by (auto simp: Let_def split: if_splits)
  then obtain raw where t: "recognize env lang = Inr raw" and ct: "clean_text raw = s"
    by (cases "recognize env lang") (auto simp: performOCR_def)
  from sn ct have cn: "clean_text raw \<noteq> []" by simp
  from clean_text_lines(1) [OF cn] ct show "3 \<le> length s" by simp
  have "(\<exists>line \<in> set (split_at 0xA raw). l = trim line) \<and>
        2 \<le> length (filter is_alnum l) \<and>
        0.3 \<le> real (length (filter is_alnum l)) / real (length l)"
    if "l \<in> set (split_at 0xA s)" for l
  proof -
    from that clean_text_lines(2) [OF cn] ct
    have "l \<in> set (filter_Boolean (map filter_line (split_at 0xA raw)))" by simp
    then obtain line where l: "line \<in> set (split_at 0xA raw)" "filter_line line = Some l"
      using filter_Boolean_member by blast
    from filter_line_Some [OF l(2)] l(1) show ?thesis by blast
  qed
  with t show "\<exists>text. recognize env lang = Inr text \<and>
               (\<forall>l \<in> set (split_at 0xA s).
                  (\<exists>line \<in> set (split_at 0xA text). l = trim line) \<and>
                  2 \<le> length (filter is_alnum l) \<and>
                  0.3 \<le> real (length (filter is_alnum l)) / real (length l))"
    by blast
qed


lemma example_env_ocr:
  "\<exists>a. analyzeImageLocal example_env PL = Some (Inr a) \<and>
        ocrText a = Some (lit ''STOP 12'' @ [0xA] @ lit ''ul. Polna'')"
proof -
  have "performOCR (recognize example_env PL) = lit ''STOP 12'' @ [0xA] @ lit ''ul. Polna''"
    by (simp add: example_env_def performOCR_def clean_text_def filter_line_def
        filter_Boolean_def trim_def is_space_def is_alnum_def Let_def lit_def)
  moreover have "\<exists>a. analyzeImageLocal example_env PL = Some (Inr a)"
    using example_env_faces [of PL] by blast
  ultimately show ?thesis
    using analysis_ocrText by (fastforce simp: Let_def lit_def)
qed

theorem ocr_text_absent_or_filtered_witness:
  "\<exists>a s. analyzeImageLocal example_env PL = Some (Inr a) \<and> ocrText a = Some s \<and>
          s = lit ''STOP 12'' @ [0xA] @ lit ''ul. Polna'' \<and> 3 \<le> length s"
proof -
  from example_env_ocr obtain a where
    a: "analyzeImageLocal example_env PL = Some (Inr a)" and
    o: "ocrText a = Some (lit ''STOP 12'' @ [0xA] @ lit ''ul. Polna'')"
    by blast
  from ocr_text_absent_or_filtered [OF a] o
  have "3 \<le> length (lit ''STOP 12'' @ [0xA] @ lit ''ul. Polna'')" by blast
  with a o show ?thesis by blast
qed

subsection \<open>Dominant colours\<close>

lemma digit_char_hex: "d < 16 \<Longrightarrow> is_hex_digit (digit_char d)"
  by (auto simp: is_hex_digit_def digit_char_def)

lemma toString_16_digits: "list_all is_hex_digit (toString_radix 16 n)"
proof (induction "16::nat" n rule: toString_radix.induct)
  case (1 n)
  show ?case
  proof (cases "n < 16")
    case True
    then show ?thesis by (simp add: toString_radix.simps [of 16 n] digit_char_hex)
  next
    case False
    with 1 show ?thesis by (simp add: toString_radix.simps [of 16 n] digit_char_hex)
  qed
qed

lemma length_toString_radix:
  "2 \<le> b \<Longrightarrow> b ^ k \<le> n \<Longrightarrow> n < b ^ Suc k \<Longrightarrow> length (toString_radix b n) = Suc k"
proof (induction k arbitrary: n)
  case 0
  then show ?case by (simp add: toString_radix.simps [of b n])
next
  case (Suc k)
  from Suc.prems have b: "0 < b" by simp
  have "b \<le> b * b ^ k" using b by simp
  moreover from Suc.prems(2) have "b * b ^ k \<le> n" by simp
  ultimately have nb: "\<not> n < b" by linarith
  have lo: "b ^ k \<le> n div b"
    using Suc.prems(2) b by (simp add: less_eq_div_iff_mult_less_eq mult.commute)
  have hi: "n div b < b ^ Suc k"
    using Suc.prems(3) b by (simp add: less_mult_imp_div_less mult.commute)
  from Suc.IH [OF Suc.prems(1) lo hi] nb Suc.prems(1) show ?case
    by (simp add: toString_radix.simps [of b n])
qed

lemma hex_color_valid:
  assumes "r < 256" and "g < 256" and "b < 256"
  shows "is_hex_color (hex_color (Some r) (Some g) (Some b))"
proof -
  let ?n = "2 ^ 24 + r * 2 ^ 16 + g * 2 ^ 8 + b"
  have "(16::nat) ^ 6 \<le> ?n" and "?n < 16 ^ Suc 6" using assms by simp_all
  then have len: "length (toString_radix 16 ?n) = 7"
    using length_toString_radix [of 16 6 ?n] by simp
  have "list_all is_hex_digit (drop 1 (toString_radix 16 ?n))"
    using toString_16_digits [of ?n] by (auto simp: list_all_iff dest: in_set_dropD)
  with len show ?thesis by (simp add: is_hex_color_def hex_color_def shift_left_def)
qed

lemma pixel_hex_valid:
  assumes "4 dvd length d" and "4 dvd i" and "i < length d"
  shows "is_hex_color (pixel_hex d i)"
proof -
  from assms have "i + 2 < length d" by (auto simp: dvd_def)
  then have "pixel_hex d i
      = hex_color (Some (unat (d ! i))) (Some (unat (d ! (i + 1)))) (Some (unat (d ! (i + 2))))"
    by (simp add: pixel_hex_def read_byte_def)
  moreover have "unat w < 256" for w :: "8 word"
    using unsigned_less [of w] by simp
  ultimately show ?thesis by (simp add: hex_color_valid)
qed

lemma sampled_valid:
  "4 dvd length d \<Longrightarrow> 4 dvd i \<Longrightarrow> list_all is_hex_color (sampled d i)"
proof (induction d i rule: sampled.induct)
  case (1 d i)
  show ?case
  proof (cases "i < length d")
    case True
    with 1 show ?thesis
      by (simp add: sampled.simps [of d i] pixel_hex_valid)
  next
    case False
    then show ?thesis by (simp add: sampled.simps [of d i])
  qed
qed

lemma sample_loop_fold: "sample_loop d i cs = fold count_color (sampled d i) cs"
proof (induction d i cs rule: sample_loop.induct)
  case (1 d i cs)
  show ?case
  proof (cases "i < length d")
    case True
    with 1 show ?thesis
      by (simp add: sample_loop.simps [of d i cs] sampled.simps [of d i])
  next
    case False
    then show ?thesis by (simp add: sample_loop.simps [of d i cs] sampled.simps [of d i])
  qed
qed


lemma keys_count_color:
  "map fst (count_color k cs) = (if k \<in> fst ` set cs then map fst cs else map fst cs @ [k])"
  by (induction k cs rule: count_color.induct) (auto simp: image_iff)

lemma entries_count_color:
  assumes "distinct (map fst cs)" and "(k', n') \<in> set (count_color k cs)"
  shows "(k' \<noteq> k \<and> (k', n') \<in> set cs) \<or>
         (k' = k \<and> ((\<exists>n. (k, n) \<in> set cs \<and> n' = n + 1) \<or> (k \<notin> fst ` set cs \<and> n' = 1)))"
  using assms
proof (induction k cs rule: count_color.induct)
  case (1 hex)
  then show ?case by simp
next
  case (2 hex k n rest)
  show ?case
  proof (cases "k = hex")
    case True
    with 2 show ?thesis by (auto simp: image_iff)
  next
    case False
    with 2 show ?thesis by (auto simp: image_iff)
  qed
qed

lemma first_index_append:
  "v \<in> set xs \<Longrightarrow> first_index (xs @ ys) v = first_index xs v"
  unfolding first_index_def by (induction xs) auto

lemma first_index_less: "v \<in> set xs \<Longrightarrow> first_index xs v < length xs"
  unfolding first_index_def by (induction xs) auto

lemma first_index_snoc_new: "v \<notin> set xs \<Longrightarrow> first_index (xs @ [v]) v = length xs"
  unfolding first_index_def by (induction xs) auto

lemma tally_of_step:
  assumes "tally_of ks cs"
  shows "tally_of (ks @ [k]) (count_color k cs)"
proof -
  from assms have d: "distinct (map fst cs)" and s: "set (map fst cs) = set ks"
    and c: "\<forall>(k, n) \<in> set cs. n = count_list ks k"
    and o: "sorted_wrt (\<lambda>a b. first_index ks a < first_index ks b) (map fst cs)"
    by (auto simp: tally_of_def)
  have s': "fst ` set cs = set ks" using s by simp
  have 1: "distinct (map fst (count_color k cs))"
    using d by (auto simp: keys_count_color)
  have 2: "set (map fst (count_color k cs)) = set (ks @ [k])"
    using s by (auto simp: keys_count_color)
  have 3: "\<forall>(k', n') \<in> set (count_color k cs). n' = count_list (ks @ [k]) k'"
  proof (clarify)
    fix k' n' assume "(k', n') \<in> set (count_color k cs)"
    from entries_count_color [OF d this] c s' show "n' = count_list (ks @ [k]) k'"
      by (auto simp: count_list_0_iff)
  qed
  have o': "sorted_wrt (\<lambda>a b. first_index (ks @ [k]) a < first_index (ks @ [k]) b) (map fst cs)"
    using o s by (auto simp: first_index_append elim!: sorted_wrt_mono_rel [rotated])
  have 4: "sorted_wrt (\<lambda>a b. first_index (ks @ [k]) a < first_index (ks @ [k]) b)
             (map fst (count_color k cs))"
  proof (cases "k \<in> fst ` set cs")
    case True
    with o' show ?thesis by (simp add: keys_count_color)
  next
    case False
    with s' have "k \<notin> set ks" by simp
    then have "\<forall>a \<in> set ks. first_index (ks @ [k]) a < first_index (ks @ [k]) k"
      by (simp add: first_index_append first_index_less first_index_snoc_new)
    with o' False s show ?thesis
      by (simp add: keys_count_color sorted_wrt_append)
  qed
  from 1 2 3 4 show ?thesis unfolding tally_of_def by blast
qed

lemma tally_of_fold: "tally_of ks (fold count_color ks [])"
proof (induction ks rule: rev_induct)
  case Nil
  show ?case by (simp add: tally_of_def)
next
  case (snoc k ks)
  then show ?case by (simp add: tally_of_step)
qed

text \<open>A stable sort refines the order it finds.\<close>

lemma insort_key_refines:
  assumes "sorted_wrt (\<lambda>a b. f a < f b \<or> (f a = f b \<and> R a b)) ys"
    and "\<forall>y \<in> set ys. R x y"
  shows "sorted_wrt (\<lambda>a b. f a < f b \<or> (f a = f b \<and> R a b)) (insort_key f x ys)"
  using assms
proof (induction ys)
  case Nil
  then show ?case by simp
next
  case (Cons y ys)
  show ?case
  proof (cases "f x \<le> f y")
    case True
    have "f x < f z \<or> (f x = f z \<and> R x z)" if "z \<in> set (y # ys)" for z
    proof -
      from that Cons.prems(1) have "f y \<le> f z" by auto
      with True have "f x \<le> f z" by simp
      moreover from that Cons.prems(2) have "R x z" by auto
      ultimately show ?thesis by auto
    qed
    with True Cons.prems(1) show ?thesis by simp
  next
    case False
    then have "f y < f x" by simp
    moreover have "sorted_wrt (\<lambda>a b. f a < f b \<or> (f a = f b \<and> R a b)) (insort_key f x ys)"
      using Cons by simp
    ultimately show ?thesis using False Cons.prems(1) by (auto simp: set_insort_key)
  qed
qed

lemma sort_key_refines:
  "sorted_wrt R xs \<Longrightarrow>
     sorted_wrt (\<lambda>a b. f a < f b \<or> (f a = f b \<and> R a b)) (sort_key f xs)"
  by (induction xs) (auto intro: insort_key_refines)


lemma sorted_wrt_take_drop:
  "sorted_wrt P xs \<Longrightarrow> \<forall>a \<in> set (take n xs). \<forall>b \<in> set (drop n xs). P a b"
  using sorted_wrt_append [of P "take n xs" "drop n xs"] by simp

lemma set_take_drop: "set xs = set (take n xs) \<union> set (drop n xs)"
  by (metis append_take_drop_id set_append)

lemma top3_ranked:
  fixes ks :: "jsstring list"
  assumes res_def:
    "res = map fst (take 3 (sort_descending (\<lambda>c. real (snd c)) (fold count_color ks [])))"
  shows "length res \<le> 3" and "distinct res" and "set res \<subseteq> set ks"
    and "sorted_wrt (outranks ks) res"
    and "\<forall>k \<in> set ks. k \<notin> set res \<longrightarrow> length res = 3 \<and> (\<forall>r \<in> set res. outranks ks r k)"
    and "ks \<noteq> [] \<longrightarrow> res \<noteq> []"
proof -
  let ?cs = "fold count_color ks []"
  let ?f = "\<lambda>c::jsstring \<times> nat. - real (snd c)"
  let ?srt = "sort_key ?f ?cs"
  let ?O = "\<lambda>a b. outranks ks (fst a) (fst b)"
  have res: "res = map fst (take 3 ?srt)" by (simp add: res_def sort_descending_def)
  have t: "tally_of ks ?cs" by (rule tally_of_fold)
  then have d: "distinct (map fst ?cs)" and s: "fst ` set ?cs = set ks"
    and c: "\<And>e. e \<in> set ?cs \<Longrightarrow> snd e = count_list ks (fst e)"
    and o: "sorted_wrt (\<lambda>a b. first_index ks (fst a) < first_index ks (fst b)) ?cs"
    by (auto simp: tally_of_def sorted_wrt_map)
  have "sorted_wrt (\<lambda>a b. ?f a < ?f b \<or>
          (?f a = ?f b \<and> first_index ks (fst a) < first_index ks (fst b))) ?srt"
    using o by (rule sort_key_refines)
  then have O: "sorted_wrt ?O ?srt"
  proof (rule sorted_wrt_mono_rel [rotated])
    fix a b assume "a \<in> set ?srt" "b \<in> set ?srt"
      and "?f a < ?f b \<or> (?f a = ?f b \<and> first_index ks (fst a) < first_index ks (fst b))"
    then show "?O a b" using c [of a] c [of b] by (auto simp: outranks_def)
  qed
  show "length res \<le> 3" by (simp add: res)
  have ds: "distinct (map fst ?srt)"
    using d by (simp add: distinct_map)
  then show "distinct res" by (simp add: res take_map [symmetric])
  have "set res \<subseteq> fst ` set ?srt"
    by (auto simp: res dest!: in_set_takeD)
  with s show sub: "set res \<subseteq> set ks" by simp
  show "sorted_wrt (outranks ks) res"
    using O by (simp add: res sorted_wrt_map)
  have across: "\<forall>a \<in> set (take 3 ?srt). \<forall>b \<in> set (drop 3 ?srt). ?O a b"
    using O by (rule sorted_wrt_take_drop)
  show "\<forall>k \<in> set ks. k \<notin> set res \<longrightarrow> length res = 3 \<and> (\<forall>r \<in> set res. outranks ks r k)"
  proof (intro ballI impI)
    fix k assume k: "k \<in> set ks" "k \<notin> set res"
    from k(1) s have "k \<in> fst ` set ?srt" by simp
    then obtain b where b: "k = fst b" "b \<in> set ?srt" by (rule imageE)
    from b(2) have "b \<in> set (take 3 ?srt) \<or> b \<in> set (drop 3 ?srt)"
      using set_take_drop [of ?srt 3] by blast
    with k(2) b(1) have bd: "b \<in> set (drop 3 ?srt)" by (auto simp: res)
    then have "3 < length ?srt" by (cases "3 < length ?srt") auto
    then have "length res = 3" by (simp add: res)
    moreover have "\<forall>r \<in> set res. outranks ks r k"
      using across bd b(1) by (auto simp: res)
    ultimately show "length res = 3 \<and> (\<forall>r \<in> set res. outranks ks r k)" by simp
  qed
  show "ks \<noteq> [] \<longrightarrow> res \<noteq> []"
  proof
    assume "ks \<noteq> []"
    with s have "?cs \<noteq> []" by auto
    then have "?srt \<noteq> []" by (metis length_sort length_0_conv)
    then show "res \<noteq> []" by (simp add: res)
  qed
qed


lemma push_faces_length: "push_faces te w raw = Inr pushed \<Longrightarrow> length pushed = length raw"
  by (induction raw arbitrary: pushed) (auto split: sum.splits)

lemma process_faces_surface:
  assumes "process_faces env v = Inr (fs, m, s)"
  shows "s = (if fs = [] then canvasSurface env else snd (drawOverlay env))"
proof (cases v)
  case NotAnArray
  with assms show ?thesis by (simp add: process_faces_def sort_faces_def)
next
  case (FaceArray fds)
  show ?thesis
  proof (cases "fds = []")
    case True
    with assms FaceArray show ?thesis by (simp add: process_faces_def sort_faces_def)
  next
    case False
    with assms FaceArray obtain pushed where
      p: "push_faces (typeError env) (canvasWidth env) fds = Inr pushed" and
      f: "fs = sort_faces pushed" and s: "s = snd (drawOverlay env)"
      by (auto simp: process_faces_def split: sum.splits)
    from push_faces_length [OF p] False have "pushed \<noteq> []" by auto
    then have "sort_faces pushed \<noteq> []"
      unfolding sort_faces_def by (metis length_sort length_0_conv)
    with f s show ?thesis by simp
  qed
qed

lemma analysis_colors:
  assumes "analyzeImageLocal env lang = Some (Inr a)"
  shows "getDominantColors (if faces a = Some [] then canvasSurface env
                            else snd (drawOverlay env)) = Inr (dominantColors a)"
proof -
  from analyzeImageLocal_Inr [OF assms] obtain ds ps fv fs m s cs where
    pf: "process_faces env fv = Inr (fs, m, s)" and
    g: "getDominantColors s = Inr cs" and
    a: "assemble env lang ds ps fs m cs (performOCR (recognize env lang)) = Inr a"
    by blast
  from process_faces_surface [OF pf] g assemble_Inr(1,5) [OF a] show ?thesis by simp
qed

lemma getDominantColors_Pixels:
  "getDominantColors (Pixels d)
     = Inr (map fst (take 3 (sort_descending (\<lambda>c. real (snd c))
                               (fold count_color (sampled d 0) []))))"
  by (simp add: getDominantColors_def sample_loop_fold)

lemma outranks_count: "outranks ks a b \<Longrightarrow> count_list ks b \<le> count_list ks a"
  by (auto simp: outranks_def)

text \<open>
  C9: the \<open>dominantColors\<close> of a returned analysis are at most 3 hex colours.  When the
  canvas has pixels, they are distinct colours of the fixed-stride sample, each outranks
  the next (it is more frequent in the sample, or as frequent and met first), every
  sampled colour left out is outranked by all three, and the first is a most frequent
  colour of the sample.  The pixels are those of the canvas as it is when the colours are
  read: with the overlay drawn when there are faces.  The byte arrays are those of an
  \<open>ImageData\<close>: four bytes for each pixel.
\<close>

theorem dominant_colors_ranked:
  assumes "analyzeImageLocal env lang = Some (Inr a)"
    and "whole_pixels (canvasSurface env)" and "whole_pixels (snd (drawOverlay env))"
  shows "length (dominantColors a) \<le> 3 \<and> list_all is_hex_color (dominantColors a) \<and>
     (\<forall>d. (if faces a = Some [] then canvasSurface env else snd (drawOverlay env)) = Pixels d \<longrightarrow>
        (let ks = sampled d 0; res = dominantColors a in
           distinct res \<and> set res \<subseteq> set ks \<and> sorted_wrt (outranks ks) res \<and>
           (\<forall>k \<in> set ks. k \<notin> set res \<longrightarrow> length res = 3 \<and> (\<forall>r \<in> set res. outranks ks r k)) \<and>
           (ks \<noteq> [] \<longrightarrow> res \<noteq> [] \<and> (\<forall>k \<in> set ks. count_list ks k \<le> count_list ks (hd res)))))"
proof -
  let ?s = "if faces a = Some [] then canvasSurface env else snd (drawOverlay env)"
  let ?res = "dominantColors a"
  have g: "getDominantColors ?s = Inr ?res" using assms(1) by (rule analysis_colors)
  have w: "whole_pixels ?s" using assms(2,3) by simp
  show ?thesis
  proof (cases ?s)
    case NoContext
    with g have "?res = [lit ''#000000'']" by (simp add: getDominantColors_def)
    then have "length ?res \<le> 3" and "list_all is_hex_color ?res"
      by (simp_all add: is_hex_color_def is_hex_digit_def lit_def)
    with NoContext show ?thesis by simp
  next
    case (GetImageDataThrows e)
    with g show ?thesis by (simp add: getDominantColors_def)
  next
    case (Pixels d)
    let ?ks = "sampled d 0"
    from g Pixels have res: "?res = map fst (take 3 (sort_descending (\<lambda>c. real (snd c))
                               (fold count_color ?ks [])))"
      by (simp add: getDominantColors_Pixels)
    note r = top3_ranked [OF res]
    from w Pixels have "4 dvd length d" by (simp add: whole_pixels_def)
    then have v: "list_all is_hex_color ?ks" by (simp add: sampled_valid)
    with r(3) have valid: "list_all is_hex_color ?res" by (auto simp: list_all_iff)
    have top: "count_list ?ks k \<le> count_list ?ks (hd ?res)" if "k \<in> set ?ks" "?res \<noteq> []" for k
    proof (cases "k \<in> set ?res")
      case True
      from that(2) obtain h t where ht: "?res = h # t" by (cases ?res) auto
      with True r(4) have "k = h \<or> outranks ?ks h k" by auto
      with ht show ?thesis by (auto dest: outranks_count)
    next
      case False
      with r(5) that have "outranks ?ks (hd ?res) k" by auto
      then show ?thesis by (rule outranks_count)
    qed
    from r valid top Pixels show ?thesis by (simp add: Let_def)
  qed
qed


lemma striped_sampled:
  "sampled striped_pixels 0 = [lit ''#ff0000'', lit ''#0000ff'', lit ''#0000ff'']"
  by (simp add: sampled.simps striped_pixels_def pixel_hex_def read_byte_def nth_append
      hex_color_def shift_left_def toString_radix.simps digit_char_def lit_def)

lemma striped_colors:
  "getDominantColors (Pixels striped_pixels) = Inr [lit ''#0000ff'', lit ''#ff0000'']"
  by (simp add: getDominantColors_Pixels striped_sampled sort_descending_def lit_def)


lemma striped_env_result:
  "\<exists>a. analyzeImageLocal striped_env PL = Some (Inr a) \<and> faces a = Some [] \<and>
        dominantColors a = [lit ''#0000ff'', lit ''#ff0000'']"
  by (simp add: striped_env_def example_defs striped_colors lit_def
      del: getDominantColors_def)

theorem dominant_colors_ranked_witness:
  "\<exists>a. analyzeImageLocal striped_env PL = Some (Inr a) \<and>
        sampled striped_pixels 0 = [lit ''#ff0000'', lit ''#0000ff'', lit ''#0000ff''] \<and>
        dominantColors a = [lit ''#0000ff'', lit ''#ff0000''] \<and>
        list_all is_hex_color (dominantColors a) \<and>
        sorted_wrt (outranks (sampled striped_pixels 0)) (dominantColors a)"
proof -
  from striped_env_result obtain a where
    a: "analyzeImageLocal striped_env PL = Some (Inr a)" and f: "faces a = Some []" and
    c: "dominantColors a = [lit ''#0000ff'', lit ''#ff0000'']"
    by blast
  have h2: "whole_pixels (canvasSurface striped_env)"
    by (simp add: whole_pixels_def striped_env_def striped_pixels_def)
  have "length example_pixels = 8" by (simp add: example_pixels_def)
  then have h3: "whole_pixels (snd (drawOverlay striped_env))"
    by (simp add: whole_pixels_def striped_env_def example_env_def)
  note T = dominant_colors_ranked [OF a h2 h3]
  have s: "(if faces a = Some [] then canvasSurface striped_env
            else snd (drawOverlay striped_env)) = Pixels striped_pixels"
    using f by (simp add: striped_env_def)
  have v: "list_all is_hex_color (dominantColors a)"
    by (rule T [THEN conjunct2, THEN conjunct1])
  have o: "sorted_wrt (outranks (sampled striped_pixels 0)) (dominantColors a)"
    by (rule T [THEN conjunct2, THEN conjunct2, THEN spec, THEN mp, OF s, unfolded Let_def,
          THEN conjunct2, THEN conjunct2, THEN conjunct1])
  show ?thesis
    by (intro exI [of _ a] conjI) (rule a striped_sampled c v o)+
qed

subsection \<open>Record lifecycle\<close>

text \<open>
  C8: when the aggregator fails, the record that was set to \<open>analyzing\<close> ends in \<open>error\<close>;
  its error is the failure's message as it is, or the generic fallback \<open>unknownError\<close>
  when the failure has no message (or an empty one); its analysis is the one it had
  before the attempt; every other record is untouched.
\<close>

theorem analyzing_to_error:
  "length (analyzeSingleRecord (Some (Inl e)) u rid prev) = length prev \<and>
   (\<forall>i < length prev.
      let old = prev ! i; new = analyzeSingleRecord (Some (Inl e)) u rid prev ! i in
      (rec_id old = rid \<longrightarrow>
         status new = Error \<and> analysis new = analysis old \<and>
         (\<forall>m. message e = Some m \<and> m \<noteq> [] \<longrightarrow> error new = Some m) \<and>
         (message e = None \<or> message e = Some [] \<longrightarrow> error new = Some u)) \<and>
      (rec_id old \<noteq> rid \<longrightarrow> new = old))"
  by (auto simp: analyzeSingleRecord_def begin_analysis_def fail_analysis_def
      error_message_def Let_def)

theorem analyzing_to_error_witness:
  "(let new = analyzeSingleRecord (Some (Inl (Failure (Some (lit ''decode failed'')))))
                (lit ''Unknown error'') (lit ''r1'') [example_record] ! 0
    in status new = Error \<and> analysis new = Some example_analysis \<and>
       error new = Some (lit ''decode failed'')) \<and>
   error (analyzeSingleRecord (Some (Inl (Failure None))) (lit ''Unknown error'') (lit ''r1'')
            [example_record] ! 0) = Some (lit ''Unknown error'')"
  using analyzing_to_error [of "Failure (Some (lit ''decode failed''))" "lit ''Unknown error''"
      "lit ''r1''" "[example_record]"]
    analyzing_to_error [of "Failure None" "lit ''Unknown error''" "lit ''r1''" "[example_record]"]
  by (simp add: Let_def example_record_def lit_def)

text \<open>
  C7: the background metadata merge is idempotent, and it is stale-safe: when no tracked
  record has the identity and an analysis (the record was removed, or its analysis is
  absent), the merge returns the state as it is.  The merge is a total function of the
  state, so there is no failure to raise.
\<close>

theorem metadata_merge_idempotent_stale_safe:
  "merge_exif rid d (merge_exif rid d prev) = merge_exif rid d prev \<and>
   ((\<forall>img \<in> set prev. rec_id img \<noteq> rid \<or> analysis img = None) \<longrightarrow>
      merge_exif rid d prev = prev)"
proof
  show "merge_exif rid d (merge_exif rid d prev) = merge_exif rid d prev"
    by (auto simp: merge_exif_def spread_def split: option.splits own_prop.splits)
  show "(\<forall>img \<in> set prev. rec_id img \<noteq> rid \<or> analysis img = None) \<longrightarrow>
      merge_exif rid d prev = prev"
    by (auto simp: merge_exif_def map_idI split: option.splits)
qed

theorem metadata_merge_idempotent_stale_safe_witness:
  "merge_exif (lit ''r1'') (extractExifData (ParseTags example_block (Some 52) (Some 21)))
     [example_record\<lparr>rec_id := lit ''r2''\<rparr>, example_record\<lparr>analysis := None\<rparr>]
   = [example_record\<lparr>rec_id := lit ''r2''\<rparr>, example_record\<lparr>analysis := None\<rparr>] \<and>
   merge_exif (lit ''r1'') (extractExifData (ParseTags example_block (Some 52) (Some 21))) [] = []"
  using metadata_merge_idempotent_stale_safe [of "lit ''r1''"
      "extractExifData (ParseTags example_block (Some 52) (Some 21))"
      "[example_record\<lparr>rec_id := lit ''r2''\<rparr>, example_record\<lparr>analysis := None\<rparr>]"]
    metadata_merge_idempotent_stale_safe [of "lit ''r1''"
      "extractExifData (ParseTags example_block (Some 52) (Some 21))" "[]"]
  by (simp add: example_record_def lit_def)

lemma returned_analysis_metadata_of:
  assumes "analyzeImageLocal env lang = Some (Inr a)"
  shows "metadata_of p a"
proof -
  from analyzeImageLocal_Inr [OF assms] obtain ds ps fs m cs where
    "assemble env lang ds ps fs m cs (performOCR (recognize env lang)) = Inr a"
    by blast
  from assemble_Inr(7,8) [OF this] show ?thesis by (simp add: metadata_of_def)
qed

text \<open>
  C2: the background metadata merge is a non-destructive shallow merge.  An analysis
  that the aggregator returns carries no metadata.  From then on, merging what an
  extraction of the record's file yields leaves every record its other fields, gives no
  analysis to a record without one, leaves every field of an analysis other than \<open>exif\<close>
  and \<open>location\<close> unchanged, keeps an \<open>exif\<close> and a \<open>location\<close> that are present as they
  are, and, when the extraction yields tags, leaves the analysis with the block and the
  location of these tags.
\<close>

theorem metadata_merge_non_destructive:
  "(\<forall>env lang a. analyzeImageLocal env lang = Some (Inr a) \<longrightarrow> metadata_of p a) \<and>
   ((\<forall>img \<in> set prev. rec_id img = rid \<longrightarrow> (\<forall>a. analysis img = Some a \<longrightarrow> metadata_of p a))
      \<and> extraction_of p q \<longrightarrow>
    length (merge_exif rid (extractExifData q) prev) = length prev \<and>
    (\<forall>i < length prev.
      let old = prev ! i; new = merge_exif rid (extractExifData q) prev ! i in
      new = old\<lparr>analysis := analysis new\<rparr> \<and>
      (analysis old = None \<longrightarrow> analysis new = None) \<and>
      (\<forall>a. analysis old = Some a \<longrightarrow>
         (\<exists>a'. analysis new = Some a' \<and>
               a' = a\<lparr>exif := exif a', location := location a'\<rparr> \<and>
               (exif a \<noteq> None \<longrightarrow> exif a' = exif a) \<and>
               (location a \<noteq> None \<longrightarrow> location a' = location a) \<and>
               (rec_id old \<noteq> rid \<longrightarrow> a' = a) \<and>
               (rec_id old = rid \<longrightarrow> metadata_of p a') \<and>
               (\<forall>b la lo. rec_id old = rid \<and> q = ParseTags b la lo \<longrightarrow>
                  exif a' = Some b \<and>
                  location a' = (case (la, lo) of
                                   (Some u, Some v) \<Rightarrow> Some \<lparr>lat = u, lng = v\<rparr>
                                 | _ \<Rightarrow> None))))))"
proof (intro conjI allI impI)
  fix env lang a
  assume "analyzeImageLocal env lang = Some (Inr a)"
  then show "metadata_of p a" by (rule returned_analysis_metadata_of)
next
  assume h: "(\<forall>img \<in> set prev. rec_id img = rid \<longrightarrow>
               (\<forall>a. analysis img = Some a \<longrightarrow> metadata_of p a)) \<and> extraction_of p q"
  show "length (merge_exif rid (extractExifData q) prev) = length prev"
    by (simp add: merge_exif_def)
next
  fix i
  assume h: "(\<forall>img \<in> set prev. rec_id img = rid \<longrightarrow>
               (\<forall>a. analysis img = Some a \<longrightarrow> metadata_of p a)) \<and> extraction_of p q"
    and i: "i < length prev"
  from i have mem: "prev ! i \<in> set prev" by simp
  with h have inv: "rec_id (prev ! i) = rid \<longrightarrow>
      (\<forall>a. analysis (prev ! i) = Some a \<longrightarrow> metadata_of p a)" by blast
  show "let old = prev ! i; new = merge_exif rid (extractExifData q) prev ! i in
      new = old\<lparr>analysis := analysis new\<rparr> \<and>
      (analysis old = None \<longrightarrow> analysis new = None) \<and>
      (\<forall>a. analysis old = Some a \<longrightarrow>
         (\<exists>a'. analysis new = Some a' \<and>
               a' = a\<lparr>exif := exif a', location := location a'\<rparr> \<and>
               (exif a \<noteq> None \<longrightarrow> exif a' = exif a) \<and>
               (location a \<noteq> None \<longrightarrow> location a' = location a) \<and>
               (rec_id old \<noteq> rid \<longrightarrow> a' = a) \<and>
               (rec_id old = rid \<longrightarrow> metadata_of p a') \<and>
               (\<forall>b la lo. rec_id old = rid \<and> q = ParseTags b la lo \<longrightarrow>
                  exif a' = Some b \<and>
                  location a' = (case (la, lo) of
                                   (Some u, Some v) \<Rightarrow> Some \<lparr>lat = u, lng = v\<rparr>
                                 | _ \<Rightarrow> None))))"
  proof (cases q)
    case (ParseThrows e)
    with i inv show ?thesis by (simp add: merge_exif_def Let_def)
  next
    case ParseNothing
    with i inv show ?thesis by (simp add: merge_exif_def Let_def)
  next
    case (ParseTags b la lo)
    with h have "q = p" by (simp add: extraction_of_def)
    with ParseTags i inv show ?thesis
      by (auto simp: merge_exif_def spread_def metadata_of_def Let_def split: option.splits)
  qed
qed

theorem metadata_merge_non_destructive_witness:
  "\<exists>a a' a''.
     analyzeImageLocal example_env PL = Some (Inr a) \<and>
     analysis (merge_exif (lit ''r1'') (extractExifData example_tags)
                 [example_record\<lparr>analysis := Some a\<rparr>] ! 0) = Some a' \<and>
     exif a' = Some example_block \<and> location a' = Some \<lparr>lat = 52, lng = 21\<rparr> \<and>
     objects a' = objects a \<and>
     analysis (merge_exif (lit ''r1'') (extractExifData (ParseThrows (Failure None)))
                 [example_record\<lparr>analysis := Some a'\<rparr>] ! 0) = Some a'' \<and>
     location a'' = Some \<lparr>lat = 52, lng = 21\<rparr>"
proof -
  from example_env_faces [of PL] obtain a where
    a: "analyzeImageLocal example_env PL = Some (Inr a)" by blast
  let ?r = "lit ''r1''"
  let ?s1 = "[example_record\<lparr>analysis := Some a\<rparr>]"
  note T = metadata_merge_non_destructive [of example_tags]
  have fresh: "metadata_of example_tags a"
    using T [THEN conjunct1] a by blast
  have ex: "extraction_of example_tags example_tags"
    by (simp add: extraction_of_def example_tags_def)
  have inv1: "\<forall>img \<in> set ?s1. rec_id img = ?r \<longrightarrow>
                (\<forall>b. analysis img = Some b \<longrightarrow> metadata_of example_tags b)"
    using fresh by simp
  from T [of ?s1 ?r example_tags, THEN conjunct2, THEN mp, OF conjI [OF inv1 ex],
      THEN conjunct2, THEN spec, of 0]
  obtain a' where
    a': "analysis (merge_exif ?r (extractExifData example_tags) ?s1 ! 0) = Some a'" and
    f': "a' = a\<lparr>exif := exif a', location := location a'\<rparr>" and
    m': "metadata_of example_tags a'" and
    e': "exif a' = Some example_block" and l': "location a' = Some \<lparr>lat = 52, lng = 21\<rparr>"
    by (auto simp: Let_def example_record_def example_tags_def)
  let ?s2 = "[example_record\<lparr>analysis := Some a'\<rparr>]"
  have o': "objects a' = objects a" by (subst f') simp
  have ex2: "extraction_of example_tags (ParseThrows (Failure None))"
    by (simp add: extraction_of_def)
  have inv2: "\<forall>img \<in> set ?s2. rec_id img = ?r \<longrightarrow>
                (\<forall>b. analysis img = Some b \<longrightarrow> metadata_of example_tags b)"
    using m' by simp
  from T [of ?s2 ?r "ParseThrows (Failure None)", THEN conjunct2, THEN mp,
      OF conjI [OF inv2 ex2], THEN conjunct2, THEN spec, of 0] l'
  obtain a'' where
    a'': "analysis (merge_exif ?r (extractExifData (ParseThrows (Failure None))) ?s2 ! 0)
            = Some a''" and
    l'': "location a'' = Some \<lparr>lat = 52, lng = 21\<rparr>"
    by (auto simp: Let_def)
  from a a' e' l' o' a'' l'' show ?thesis by blast
qed

end
